theory Spec2Isabelle
  imports Complex_Main
begin

section \<open>JavaScript numbers\<close>

text \<open>
  A JavaScript number is modelled as a real: the page-pixel quantities of the capture
  engine are integers or small fractions, far below \<open>2^53\<close>, where the arithmetic of
  doubles is exact. \<open>Math.ceil\<close>, \<open>Math.floor\<close> and \<open>Math.round\<close> return integers;
  \<open>Math.round\<close> rounds a half upwards, which is \<open>\<lfloor>x + 1/2\<rfloor>\<close>.
  The remainder operator \<open>%\<close> keeps the sign of the dividend; its value for a zero
  divisor (NaN) is outside the model, and every use below is guarded.
\<close>

definition Math_ceil :: "real \<Rightarrow> int" where
  "Math_ceil x = \<lceil>x\<rceil>"

definition Math_floor :: "real \<Rightarrow> int" where
  "Math_floor x = \<lfloor>x\<rfloor>"

definition Math_round :: "real \<Rightarrow> int" where
  "Math_round x = \<lfloor>x + 1 / 2\<rfloor>"

definition js_trunc :: "real \<Rightarrow> int" where
  "js_trunc q = (if 0 \<le> q then \<lfloor>q\<rfloor> else \<lceil>q\<rceil>)"

definition js_rem :: "real \<Rightarrow> real \<Rightarrow> real" where
  "js_rem a b = a - b * real_of_int (js_trunc (a / b))"

section \<open>Geometry of the composite capture\<close>

text \<open>The type \<open>ElementRect\<close> of the source: \<open>{top, left, width, height}\<close>.\<close>

record ElementRect =
  top' :: real
  left :: real
  width :: real
  height :: real

text \<open>The local \<open>normalizedElementRect\<close> of \<open>takeCompositeScreenshot\<close>.\<close>

record NormalizedRect =
  nleft :: real
  nright :: real
  ntop :: real
  nbottom :: real

definition normalizedElementRect :: "ElementRect \<Rightarrow> ElementRect \<Rightarrow> NormalizedRect" where
  "normalizedElementRect windowRect elementRect =
     \<lparr> nleft = left elementRect - left windowRect,
       nright = left elementRect + width elementRect - left windowRect,
       ntop = top' elementRect - top' windowRect,
       nbottom = top' elementRect + height elementRect - top' windowRect \<rparr>"

definition isFitHorizontally :: "ElementRect \<Rightarrow> ElementRect \<Rightarrow> bool" where
  "isFitHorizontally windowRect elementRect =
     (width windowRect \<ge> width elementRect + nleft (normalizedElementRect windowRect elementRect))"

definition isFitVertically :: "ElementRect \<Rightarrow> ElementRect \<Rightarrow> bool" where
  "isFitVertically windowRect elementRect =
     (height windowRect \<ge> height elementRect + ntop (normalizedElementRect windowRect elementRect))"

definition viewportWidth :: "real \<Rightarrow> ElementRect \<Rightarrow> ElementRect \<Rightarrow> real" where
  "viewportWidth scrollBarWidth windowRect elementRect =
     width windowRect - (if isFitVertically windowRect elementRect then 0 else scrollBarWidth)"

definition viewportHeight :: "real \<Rightarrow> ElementRect \<Rightarrow> ElementRect \<Rightarrow> real" where
  "viewportHeight scrollBarWidth windowRect elementRect =
     height windowRect - (if isFitHorizontally windowRect elementRect then 0 else scrollBarWidth)"

text \<open>
  \<open>cols\<close> and \<open>rows\<close> divide by the tile size. For a zero tile size JavaScript yields
  \<open>Infinity\<close> or \<open>NaN\<close>; the capture function below gives no result there, and the
  two definitions are only read for a non-zero tile size.
\<close>

definition cols :: "real \<Rightarrow> ElementRect \<Rightarrow> ElementRect \<Rightarrow> int" where
  "cols scrollBarWidth windowRect elementRect =
     Math_ceil (width elementRect / viewportWidth scrollBarWidth windowRect elementRect)"

definition rows :: "real \<Rightarrow> ElementRect \<Rightarrow> ElementRect \<Rightarrow> int" where
  "rows scrollBarWidth windowRect elementRect =
     Math_ceil (height elementRect / viewportHeight scrollBarWidth windowRect elementRect)"

definition xOffset :: "real \<Rightarrow> ElementRect \<Rightarrow> ElementRect \<Rightarrow> int" where
  "xOffset scrollBarWidth windowRect elementRect =
     Math_round
       (if isFitHorizontally windowRect elementRect
        then nleft (normalizedElementRect windowRect elementRect)
        else max 0 (real_of_int (cols scrollBarWidth windowRect elementRect)
                      * viewportWidth scrollBarWidth windowRect elementRect
                    - width elementRect))"

definition yOffset :: "real \<Rightarrow> ElementRect \<Rightarrow> ElementRect \<Rightarrow> int" where
  "yOffset scrollBarWidth windowRect elementRect =
     Math_round
       (if isFitVertically windowRect elementRect
        then ntop (normalizedElementRect windowRect elementRect)
        else max 0 (real_of_int (rows scrollBarWidth windowRect elementRect)
                      * viewportHeight scrollBarWidth windowRect elementRect
                    - height elementRect))"

text \<open>The scroll target \<open>(dx, dy)\<close> of the tile in column \<open>col\<close> and row \<open>row\<close>.\<close>

definition tile_dx :: "real \<Rightarrow> ElementRect \<Rightarrow> ElementRect \<Rightarrow> int \<Rightarrow> real" where
  "tile_dx scrollBarWidth windowRect elementRect col =
     min (viewportWidth scrollBarWidth windowRect elementRect * real_of_int col
            + nleft (normalizedElementRect windowRect elementRect))
         (max 0 (nright (normalizedElementRect windowRect elementRect)
                   - viewportWidth scrollBarWidth windowRect elementRect))"

definition tile_dy :: "real \<Rightarrow> ElementRect \<Rightarrow> ElementRect \<Rightarrow> int \<Rightarrow> real" where
  "tile_dy scrollBarWidth windowRect elementRect row =
     min (viewportHeight scrollBarWidth windowRect elementRect * real_of_int row
            + ntop (normalizedElementRect windowRect elementRect))
         (max 0 (nbottom (normalizedElementRect windowRect elementRect)
                   - viewportHeight scrollBarWidth windowRect elementRect))"

text \<open>
  The size of the output raster: \<open>new PNG({ width: Math.round(..), height: Math.round(..) })\<close>.
  The PNG library is not among the sources; how it packs a raster, also an empty one, is
  not modelled.
\<close>

definition compositeWidth :: "ElementRect \<Rightarrow> int" where
  "compositeWidth elementRect = Math_round (width elementRect)"

definition compositeHeight :: "ElementRect \<Rightarrow> int" where
  "compositeHeight elementRect = Math_round (height elementRect)"

section \<open>Thrown values, remote calls and promises\<close>

text \<open>
  A thrown value is an \<open>Error\<close> object with its \<open>name\<close>, \<open>message\<close> and \<open>stack\<close>, or
  some other value. \<open>new Error(m)\<close> has the name \<open>Error\<close>; its stack is modelled by its
  header line.
\<close>

datatype thrown =
    Error (name: string) (message: string) (stack: string)
  | NonError string

definition newError :: "string \<Rightarrow> thrown" where
  "newError m = Error ''Error'' m (''Error: '' @ m)"

text \<open>An optional argument or property of the source: \<open>undefined\<close>, \<open>null\<close> or a value.\<close>

datatype 'a optional = Undefined | Null | Value 'a

text \<open>The remote calls the engine issues on its WebDriver session, as they are logged.\<close>

datatype call =
    Get string
  | GetPageSource
  | GetCapabilities
  | TakeScreenshot
  | FindElementTakeScreenshot string
  | ExecScrollBarWidth
  | ExecScrollTo real real
  | ExecGetRects string
  | ExecRootChildCount
  | ExecInsertIgnoreStyles "string list"
  | ExecRemoveIgnoreStyles nat
  | ExecSelectStory string string string bool
  | ResetMousePosition
  | Build
  | Quit
  | SetTimeouts
  | ResizeViewport
  | WaitForStorybook
  | GetCurrentUrl
  | ExecUpdateGlobals
  | Resolver

text \<open>
  A decoded PNG: \<open>data\<close> holds four bytes per pixel, row by row. A screenshot, which
  the source receives as the base64 text of a PNG file, is identified with the image it
  encodes.
\<close>

record PNG =
  png_width :: int
  png_height :: int
  data :: "nat list"

record Capabilities =
  browserName :: "string option"
  browserVersion :: "string option"

text \<open>What the measuring script of \<open>takeScreenshot\<close> reads in the page.\<close>

record PageMetrics =
  boundingClientRect :: "ElementRect option"
  scrollY :: real
  scrollX :: real
  innerWidth :: real
  innerHeight :: real

text \<open>
  The remote browser, over a state \<open>'s\<close> of its own. A call answers or throws, and
  may change the state. \<open>drv_\<close> fields are commands of the WebDriver session;
  \<open>page_\<close> fields are what a script of the source finds in the page:
  \<open>page_selectStoryHook\<close> is \<open>window.__CREEVEY_SELECT_STORY__\<close> (\<open>None\<close> when it is
  undefined; otherwise it answers with the argument it gives the callback),
  \<open>page_rootChildElementCount\<close> is \<open>None\<close> when the page has no element \<open>root\<close>,
  \<open>page_insertIgnoreStyles\<close> and \<open>page_removeIgnoreStyles\<close> are the two ignore-style
  hooks, the inserted style element being a numbered handle.
\<close>

record 's WebDriver =
  drv_get :: "string \<Rightarrow> 's \<Rightarrow> (thrown + unit) \<times> 's"
  drv_getPageSource :: "'s \<Rightarrow> (thrown + string) \<times> 's"
  drv_getCapabilities :: "'s \<Rightarrow> (thrown + Capabilities) \<times> 's"
  drv_takeScreenshot :: "'s \<Rightarrow> (thrown + PNG) \<times> 's"
  drv_elementTakeScreenshot :: "string \<Rightarrow> 's \<Rightarrow> (thrown + PNG) \<times> 's"
  drv_resetMouse :: "'s \<Rightarrow> (thrown + unit) \<times> 's"
  page_scrollBarWidth :: "'s \<Rightarrow> (thrown + real) \<times> 's"
  page_scrollTo :: "real \<Rightarrow> real \<Rightarrow> 's \<Rightarrow> (thrown + unit) \<times> 's"
  page_metrics :: "string \<Rightarrow> 's \<Rightarrow> (thrown + PageMetrics) \<times> 's"
  page_rootChildElementCount :: "'s \<Rightarrow> (thrown + nat option) \<times> 's"
  page_insertIgnoreStyles :: "string list \<Rightarrow> 's \<Rightarrow> (thrown + nat option) \<times> 's"
  page_removeIgnoreStyles :: "nat \<Rightarrow> 's \<Rightarrow> (thrown + unit) \<times> 's"
  page_selectStoryHook ::
    "'s \<Rightarrow> thrown + (string \<Rightarrow> string \<Rightarrow> string \<Rightarrow> bool \<Rightarrow> 's \<Rightarrow> (thrown + string option) \<times> 's) option"

text \<open>
  The state of a worker process: the remote browser, the log of the calls issued so
  far, the closure variable of \<open>getScrollBarWidth\<close>, and the two variables that
  \<open>getBrowser\<close> shares with its shutdown listener: \<open>browserVar\<close> tells whether the
  variable \<open>browser\<close> holds the session (it is \<open>null\<close> otherwise), \<open>shuttingDown\<close> is
  the flag.
\<close>

record 's state =
  world :: 's
  log :: "call list"
  cachedScrollBarWidth :: "real option"
  browserVar :: bool
  shuttingDown :: bool

text \<open>
  An asynchronous function of the source runs on the state and returns a value, throws,
  or never settles (\<open>None\<close>).
\<close>

type_synonym ('s, 'a) promise = "'s state \<Rightarrow> ((thrown + 'a) \<times> 's state) option"

definition returnP :: "'a \<Rightarrow> ('s, 'a) promise" where
  "returnP a s = Some (Inr a, s)"

definition throwP :: "thrown \<Rightarrow> ('s, 'a) promise" where
  "throwP e s = Some (Inl e, s)"

definition neverP :: "('s, 'a) promise" where
  "neverP s = None"

definition bindP :: "('s, 'a) promise \<Rightarrow> ('a \<Rightarrow> ('s, 'b) promise) \<Rightarrow> ('s, 'b) promise" where
  "bindP m f s =
     (case m s of
        None \<Rightarrow> None
      | Some (Inl e, s') \<Rightarrow> Some (Inl e, s')
      | Some (Inr a, s') \<Rightarrow> f a s')"

text \<open>
  \<open>try { m } finally { c }\<close>: the cleanup runs whatever \<open>m\<close> did; when the cleanup
  throws, its exception replaces the outcome of \<open>m\<close>.
\<close>

definition finallyP :: "('s, 'a) promise \<Rightarrow> ('s, unit) promise \<Rightarrow> ('s, 'a) promise" where
  "finallyP m c s =
     (case m s of
        None \<Rightarrow> None
      | Some (r, s') \<Rightarrow>
          (case c s' of
             None \<Rightarrow> None
           | Some (Inl e, s'') \<Rightarrow> Some (Inl e, s'')
           | Some (Inr u, s'') \<Rightarrow> Some (r, s'')))"


text \<open>Awaiting one remote call: it is logged, and the browser answers.\<close>

definition remote :: "call \<Rightarrow> ('s \<Rightarrow> (thrown + 'a) \<times> 's) \<Rightarrow> ('s, 'a) promise" where
  "remote c f s =
     (case f (world s) of (r, w) \<Rightarrow> Some (r, s\<lparr> world := w, log := log s @ [c] \<rparr>))"

section \<open>Ignore styles\<close>

text \<open>
  The argument \<open>ignoreElements\<close> has the type \<open>string | string[] | null | undefined\<close>.
  \<open>Array.prototype.concat(ignoreElements)\<close> spreads an array and wraps anything else
  in a one-element array; \<open>filter(Boolean)\<close> drops \<open>null\<close>, \<open>undefined\<close> and the empty
  string.
\<close>

datatype ignoreElements =
    IgnoreUndefined
  | IgnoreNull
  | IgnoreSelector string
  | IgnoreSelectors "string list"

definition concatIgnoreElements :: "ignoreElements \<Rightarrow> string optional list" where
  "concatIgnoreElements ignoreElements =
     (case ignoreElements of
        IgnoreUndefined \<Rightarrow> [Undefined]
      | IgnoreNull \<Rightarrow> [Null]
      | IgnoreSelector sel \<Rightarrow> [Value sel]
      | IgnoreSelectors sels \<Rightarrow> map Value sels)"

definition ignoreSelectors :: "ignoreElements \<Rightarrow> string list" where
  "ignoreSelectors ignoreElements =
     concat (map (\<lambda>entry. case entry of
                           Undefined \<Rightarrow> []
                         | Null \<Rightarrow> []
                         | Value sel \<Rightarrow> if sel = [] then [] else [sel])
                 (concatIgnoreElements ignoreElements))"

definition insertIgnoreStyles :: "'s WebDriver \<Rightarrow> ignoreElements \<Rightarrow> ('s, nat option) promise" where
  "insertIgnoreStyles browser ignoreElements =
     (if ignoreSelectors ignoreElements = [] then returnP None
      else remote (ExecInsertIgnoreStyles (ignoreSelectors ignoreElements))
             (page_insertIgnoreStyles browser (ignoreSelectors ignoreElements)))"

definition removeIgnoreStyles :: "'s WebDriver \<Rightarrow> nat option \<Rightarrow> ('s, unit) promise" where
  "removeIgnoreStyles browser ignoreStyles =
     (case ignoreStyles of
        None \<Rightarrow> returnP ()
      | Some style \<Rightarrow> remote (ExecRemoveIgnoreStyles style) (page_removeIgnoreStyles browser style))"

section \<open>Composite capture\<close>

text \<open>
  \<open>hasScrollBar\<close> asks for the capabilities twice; the major version is the text
  before the first dot of \<open>getBrowserVersion()\<close>.
\<close>

definition majorVersion :: "string option \<Rightarrow> string option" where
  "majorVersion v = map_option (takeWhile (\<lambda>c. c \<noteq> CHR ''.'')) v"

definition hasScrollBar :: "'s WebDriver \<Rightarrow> ('s, bool) promise" where
  "hasScrollBar browser =
     bindP (remote GetCapabilities (drv_getCapabilities browser)) (\<lambda>caps.
     bindP (remote GetCapabilities (drv_getCapabilities browser)) (\<lambda>caps'.
       returnP (browserName caps \<noteq> Some ''Safari''
                \<and> \<not> (browserName caps = Some ''firefox''
                       \<and> majorVersion (browserVersion caps') = Some ''61''))))"

definition getScrollBarWidth :: "'s WebDriver \<Rightarrow> ('s, real) promise" where
  "getScrollBarWidth browser s =
     (case cachedScrollBarWidth s of
        Some v \<Rightarrow> returnP v s
      | None \<Rightarrow>
          bindP (remote ExecScrollBarWidth (page_scrollBarWidth browser))
            (\<lambda>v s'. returnP v (s'\<lparr> cachedScrollBarWidth := Some v \<rparr>)) s)"

text \<open>The scroll targets of the tiles, row by row, as the capture loop visits them.\<close>

definition tileTargets :: "real \<Rightarrow> ElementRect \<Rightarrow> ElementRect \<Rightarrow> (real \<times> real) list" where
  "tileTargets scrollBarWidth windowRect elementRect =
     concat (map (\<lambda>row. map (\<lambda>col. (tile_dx scrollBarWidth windowRect elementRect col,
                                      tile_dy scrollBarWidth windowRect elementRect row))
                            [0..cols scrollBarWidth windowRect elementRect - 1])
                 [0..rows scrollBarWidth windowRect elementRect - 1])"

fun captureTiles :: "'s WebDriver \<Rightarrow> (real \<times> real) list \<Rightarrow> ('s, PNG list) promise" where
  "captureTiles browser [] = returnP []"
| "captureTiles browser (target # targets) =
     bindP (remote (ExecScrollTo (fst target) (snd target))
              (page_scrollTo browser (fst target) (snd target))) (\<lambda>u.
     bindP (remote TakeScreenshot (drv_takeScreenshot browser)) (\<lambda>screen.
     bindP (captureTiles browser targets) (\<lambda>screens.
       returnP (screen # screens))))"

text \<open>
  The body of the reconstruction loop, for the destination pixel \<open>(x, y)\<close>: the tile
  column and row, the index \<open>i\<close> into the output, the index \<open>j\<close> into the tile and the
  position of the tile among the captured screens.
\<close>

definition pixel_col :: "real \<Rightarrow> ElementRect \<Rightarrow> ElementRect \<Rightarrow> int \<Rightarrow> int" where
  "pixel_col scrollBarWidth windowRect elementRect x =
     Math_floor (real_of_int x / viewportWidth scrollBarWidth windowRect elementRect)"

definition pixel_row :: "real \<Rightarrow> ElementRect \<Rightarrow> ElementRect \<Rightarrow> int \<Rightarrow> int" where
  "pixel_row scrollBarWidth windowRect elementRect y =
     Math_floor (real_of_int y / viewportHeight scrollBarWidth windowRect elementRect)"

definition isLastCol :: "real \<Rightarrow> ElementRect \<Rightarrow> ElementRect \<Rightarrow> int \<Rightarrow> bool" where
  "isLastCol scrollBarWidth windowRect elementRect x =
     (cols scrollBarWidth windowRect elementRect
        - pixel_col scrollBarWidth windowRect elementRect x = 1)"

definition isLastRow :: "real \<Rightarrow> ElementRect \<Rightarrow> ElementRect \<Rightarrow> int \<Rightarrow> bool" where
  "isLastRow scrollBarWidth windowRect elementRect y =
     (rows scrollBarWidth windowRect elementRect
        - pixel_row scrollBarWidth windowRect elementRect y = 1)"

definition scrollOffset :: "bool \<Rightarrow> real \<Rightarrow> ElementRect \<Rightarrow> ElementRect \<Rightarrow> real" where
  "scrollOffset isScreenshotWithoutScrollBar scrollBarWidth windowRect elementRect =
     (if isFitVertically windowRect elementRect \<or> isScreenshotWithoutScrollBar
      then 0 else scrollBarWidth)"

definition pixel_i :: "ElementRect \<Rightarrow> int \<Rightarrow> int \<Rightarrow> int" where
  "pixel_i elementRect x y = (y * compositeWidth elementRect + x) * 4"

definition pixel_j ::
  "bool \<Rightarrow> real \<Rightarrow> ElementRect \<Rightarrow> ElementRect \<Rightarrow> int \<Rightarrow> int \<Rightarrow> real" where
  "pixel_j isScreenshotWithoutScrollBar scrollBarWidth windowRect elementRect x y =
     (js_rem (real_of_int y) (viewportHeight scrollBarWidth windowRect elementRect)
        * (viewportWidth scrollBarWidth windowRect elementRect
           + scrollOffset isScreenshotWithoutScrollBar scrollBarWidth windowRect elementRect)
      + js_rem (real_of_int x) (viewportWidth scrollBarWidth windowRect elementRect)) * 4
     + (if isLastRow scrollBarWidth windowRect elementRect y
        then real_of_int (yOffset scrollBarWidth windowRect elementRect)
             * (viewportWidth scrollBarWidth windowRect elementRect
                + scrollOffset isScreenshotWithoutScrollBar scrollBarWidth windowRect elementRect)
             * 4
        else 0)
     + (if isLastCol scrollBarWidth windowRect elementRect x
        then real_of_int (xOffset scrollBarWidth windowRect elementRect) * 4
        else 0)"

definition pixel_image :: "real \<Rightarrow> ElementRect \<Rightarrow> ElementRect \<Rightarrow> int \<Rightarrow> int \<Rightarrow> int" where
  "pixel_image scrollBarWidth windowRect elementRect x y =
     pixel_row scrollBarWidth windowRect elementRect y
       * cols scrollBarWidth windowRect elementRect
     + pixel_col scrollBarWidth windowRect elementRect x"

text \<open>
  Reading \<open>image.data[j]\<close> and storing it in the output buffer: an index that is not
  an index of the tile's buffer reads \<open>undefined\<close>, which the buffer stores as 0.
\<close>

definition bufRead :: "nat list \<Rightarrow> real \<Rightarrow> nat" where
  "bufRead d j =
     (if 0 \<le> j \<and> real_of_int \<lfloor>j\<rfloor> = j \<and> nat \<lfloor>j\<rfloor> < length d then d ! nat \<lfloor>j\<rfloor> else 0)"

text \<open>
  One pass of the loop body. \<open>images[row * cols + col]\<close> outside the captured screens
  is \<open>undefined\<close>, and reading its \<open>data\<close> throws a \<open>TypeError\<close>.
\<close>

definition copyPixel ::
  "bool \<Rightarrow> real \<Rightarrow> ElementRect \<Rightarrow> ElementRect \<Rightarrow> PNG list \<Rightarrow> nat list \<Rightarrow> int \<times> int
   \<Rightarrow> thrown + nat list" where
  "copyPixel isScreenshotWithoutScrollBar scrollBarWidth windowRect elementRect images dat p =
     (let x = fst p; y = snd p;
          i = nat (pixel_i elementRect x y);
          j = pixel_j isScreenshotWithoutScrollBar scrollBarWidth windowRect elementRect x y;
          k = pixel_image scrollBarWidth windowRect elementRect x y
      in if 0 \<le> k \<and> nat k < length images
         then Inr (dat[i := bufRead (data (images ! nat k)) j,
                       i + 1 := bufRead (data (images ! nat k)) (j + 1),
                       i + 2 := bufRead (data (images ! nat k)) (j + 2),
                       i + 3 := bufRead (data (images ! nat k)) (j + 3)])
         else Inl (Error ''TypeError'' ''Cannot read property data of undefined''
                     ''TypeError: Cannot read property data of undefined''))"

fun copyPixels ::
  "(nat list \<Rightarrow> int \<times> int \<Rightarrow> thrown + nat list) \<Rightarrow> (int \<times> int) list \<Rightarrow> nat list
   \<Rightarrow> thrown + nat list" where
  "copyPixels body [] dat = Inr dat"
| "copyPixels body (p # ps) dat =
     (case body dat p of Inl e \<Rightarrow> Inl e | Inr dat' \<Rightarrow> copyPixels body ps dat')"

text \<open>The destination pixels in the order of the two nested loops: \<open>y\<close> outside.\<close>

definition compositePixels :: "ElementRect \<Rightarrow> (int \<times> int) list" where
  "compositePixels elementRect =
     concat (map (\<lambda>y. map (\<lambda>x. (x, y)) [0..compositeWidth elementRect - 1])
                 [0..compositeHeight elementRect - 1])"

definition newPNGdata :: "ElementRect \<Rightarrow> nat list" where
  "newPNGdata elementRect =
     replicate (nat (4 * compositeWidth elementRect * compositeHeight elementRect)) 0"

definition takeCompositeScreenshot ::
  "'s WebDriver \<Rightarrow> ElementRect \<Rightarrow> ElementRect \<Rightarrow> ('s, PNG) promise" where
  "takeCompositeScreenshot browser windowRect elementRect =
     bindP (hasScrollBar browser) (\<lambda>withScrollBar.
     bindP (getScrollBarWidth browser) (\<lambda>scrollBarWidth.
       if viewportWidth scrollBarWidth windowRect elementRect = 0
          \<or> viewportHeight scrollBarWidth windowRect elementRect = 0
       then neverP
       else
         bindP (captureTiles browser (tileTargets scrollBarWidth windowRect elementRect))
           (\<lambda>images.
              case copyPixels
                     (copyPixel (\<not> withScrollBar) scrollBarWidth windowRect elementRect images)
                     (compositePixels elementRect) (newPNGdata elementRect) of
                Inl e \<Rightarrow> throwP e
              | Inr dat \<Rightarrow>
                  returnP \<lparr> png_width = compositeWidth elementRect,
                            png_height = compositeHeight elementRect,
                            data = dat \<rparr>)))"

text \<open>
  The index \<open>j\<close> read as a position in the tile: the row and the column of the tile
  whose pixel is copied, a row of the tile being \<open>viewportWidth + scrollOffset\<close> pixels
  long. \<open>page_col\<close> and \<open>page_row\<close> add the scroll target of the tile: the point of the
  page that this pixel of the tile shows when the tile is the viewport scrolled to its
  target.
\<close>

definition source_col :: "real \<Rightarrow> ElementRect \<Rightarrow> ElementRect \<Rightarrow> int \<Rightarrow> real" where
  "source_col scrollBarWidth windowRect elementRect x =
     js_rem (real_of_int x) (viewportWidth scrollBarWidth windowRect elementRect)
     + (if isLastCol scrollBarWidth windowRect elementRect x
        then real_of_int (xOffset scrollBarWidth windowRect elementRect) else 0)"

definition source_row :: "real \<Rightarrow> ElementRect \<Rightarrow> ElementRect \<Rightarrow> int \<Rightarrow> real" where
  "source_row scrollBarWidth windowRect elementRect y =
     js_rem (real_of_int y) (viewportHeight scrollBarWidth windowRect elementRect)
     + (if isLastRow scrollBarWidth windowRect elementRect y
        then real_of_int (yOffset scrollBarWidth windowRect elementRect) else 0)"

definition page_col :: "real \<Rightarrow> ElementRect \<Rightarrow> ElementRect \<Rightarrow> int \<Rightarrow> real" where
  "page_col scrollBarWidth windowRect elementRect x =
     tile_dx scrollBarWidth windowRect elementRect
       (pixel_col scrollBarWidth windowRect elementRect x)
     + source_col scrollBarWidth windowRect elementRect x"

definition page_row :: "real \<Rightarrow> ElementRect \<Rightarrow> ElementRect \<Rightarrow> int \<Rightarrow> real" where
  "page_row scrollBarWidth windowRect elementRect y =
     tile_dy scrollBarWidth windowRect elementRect
       (pixel_row scrollBarWidth windowRect elementRect y)
     + source_row scrollBarWidth windowRect elementRect y"

section \<open>The capture engine\<close>

text \<open>
  The measuring script: it scrolls the window to the origin (a change of the page, which
  the answer of \<open>page_metrics\<close> includes), returns nothing when the selector matches no
  element, and otherwise the element's bounding rectangle and the window rectangle, whose
  \<open>top\<close> and \<open>left\<close> are the rounded scroll offsets.
\<close>

definition getRects ::
  "'s WebDriver \<Rightarrow> string \<Rightarrow> ('s, (ElementRect \<times> ElementRect) option) promise" where
  "getRects browser selector =
     bindP (remote (ExecGetRects selector) (page_metrics browser selector)) (\<lambda>m.
       returnP
         (case boundingClientRect m of
            None \<Rightarrow> None
          | Some r \<Rightarrow>
              Some (\<lparr> top' = top' r, left = left r, width = width r, height = height r \<rparr>,
                    \<lparr> top' = real_of_int (Math_round (scrollY m)),
                      left = real_of_int (Math_round (scrollX m)),
                      width = innerWidth m, height = innerHeight m \<rparr>)))"

definition isFitIntoViewport :: "ElementRect \<Rightarrow> ElementRect \<Rightarrow> bool" where
  "isFitIntoViewport windowRect elementRect =
     (width elementRect + left elementRect \<le> width windowRect
      \<and> height elementRect + top' elementRect \<le> height windowRect)"

definition notFoundMessage :: "string \<Rightarrow> string" where
  "notFoundMessage captureElement =
     ''Couldn't find element with selector: '' @ [CHR 0x27] @ captureElement @ [CHR 0x27]"

text \<open>The \<open>try\<close> block of \<open>takeScreenshot\<close>; \<open>!captureElement\<close> holds for
  \<open>undefined\<close>, \<open>null\<close> and the empty string.\<close>

definition capture :: "'s WebDriver \<Rightarrow> string optional \<Rightarrow> ('s, PNG) promise" where
  "capture browser captureElement =
     (case captureElement of
        Undefined \<Rightarrow> remote TakeScreenshot (drv_takeScreenshot browser)
      | Null \<Rightarrow> remote TakeScreenshot (drv_takeScreenshot browser)
      | Value selector \<Rightarrow>
          if selector = [] then remote TakeScreenshot (drv_takeScreenshot browser)
          else
            bindP (getRects browser selector) (\<lambda>rects.
              case rects of
                None \<Rightarrow> throwP (newError (notFoundMessage selector))
              | Some (elementRect, windowRect) \<Rightarrow>
                  if isFitIntoViewport windowRect elementRect
                  then remote (FindElementTakeScreenshot selector)
                         (drv_elementTakeScreenshot browser selector)
                  else takeCompositeScreenshot browser windowRect elementRect))"

definition takeScreenshot ::
  "'s WebDriver \<Rightarrow> string optional \<Rightarrow> ignoreElements \<Rightarrow> ('s, PNG) promise" where
  "takeScreenshot browser captureElement ignoreElements =
     bindP (insertIgnoreStyles browser ignoreElements) (\<lambda>ignoreStyles.
       finallyP (capture browser captureElement)
                (removeIgnoreStyles browser ignoreStyles))"

section \<open>The story switcher\<close>

definition hookAbsentMessage :: string where
  "hookAbsentMessage =
     ''Creevey can't switch story. This may happened if forget to add `creevey` addon to your storybook config, or storybook not loaded in browser due syntax error.''"

text \<open>
  \<open>selectStory\<close> runs one asynchronous script. In the page, the script calls back with
  the message above when the hook is undefined, and otherwise hands the callback to the
  hook. A callback argument that is \<open>undefined\<close> or empty is no error.
\<close>

definition selectStoryScript ::
  "'s WebDriver \<Rightarrow> string \<Rightarrow> string \<Rightarrow> string \<Rightarrow> bool \<Rightarrow> 's \<Rightarrow> (thrown + string option) \<times> 's" where
  "selectStoryScript browser story_id kind story_name shouldWaitForReady w =
     (case page_selectStoryHook browser w of
        Inl e \<Rightarrow> (Inl e, w)
      | Inr None \<Rightarrow> (Inr (Some hookAbsentMessage), w)
      | Inr (Some hook) \<Rightarrow> hook story_id kind story_name shouldWaitForReady w)"

definition selectStory ::
  "'s WebDriver \<Rightarrow> string \<Rightarrow> string \<Rightarrow> string \<Rightarrow> bool \<Rightarrow> ('s, unit) promise" where
  "selectStory browser story_id kind story_name waitForReady =
     bindP (remote (ExecSelectStory story_id kind story_name waitForReady)
              (selectStoryScript browser story_id kind story_name waitForReady))
       (\<lambda>errorMessage.
          case errorMessage of
            None \<Rightarrow> returnP ()
          | Some m \<Rightarrow> if m = [] then returnP () else throwP (newError m))"

definition resolveCaptureElement :: "'s WebDriver \<Rightarrow> ('s, string option) promise" where
  "resolveCaptureElement browser =
     bindP (remote ExecRootChildCount (page_rootChildElementCount browser)) (\<lambda>root.
       let childrenCount = (case root of None \<Rightarrow> 0 | Some n \<Rightarrow> n)
       in if childrenCount = 0 then returnP None
          else if childrenCount = 1 then returnP (Some ''#root > *'')
          else returnP (Some ''#root''))"

text \<open>
  The parts of the Mocha context that \<open>switchStory\<close> reads: the browser name, the
  current test with the titles of the test and of the suites around it (innermost
  first), and the story of the test with its \<open>creevey\<close> parameters.
\<close>

record CreeveyStoryParams =
  captureElement :: "string optional"
  waitForReady :: "bool option"
  ignoreElements :: ignoreElements

record StoryInput =
  story_id :: string
  kind :: string
  story_name :: string
  creevey :: "CreeveyStoryParams option"

record Test =
  titles :: "string list"
  story :: "StoryInput option"

record Context =
  ctx_browserName :: string
  currentTest :: "Test option"

definition testScope :: "Context \<Rightarrow> Test \<Rightarrow> string list" where
  "testScope ctx test = ctx_browserName ctx # takeWhile (\<lambda>title. title \<noteq> []) (titles test)"

fun join :: "string list \<Rightarrow> string" where
  "join [] = []"
| "join [x] = x"
| "join (x # y # ys) = x @ ''/'' @ join (y # ys)"

definition creeveyParams :: "StoryInput \<Rightarrow> CreeveyStoryParams" where
  "creeveyParams st =
     (case creevey st of
        None \<Rightarrow> \<lparr> captureElement = Undefined, waitForReady = None,
                  ignoreElements = IgnoreUndefined \<rparr>
      | Some params \<Rightarrow> params)"

text \<open>
  The mouse reset is one step that may throw; its own remote calls are not told apart.
  \<open>switchStory\<close> returns the two arguments it binds into \<open>this.takeScreenshot\<close>: the
  capture selector and the ignore selectors. The default of the destructuring,
  \<open>resolveCaptureElement\<close>, is evaluated only when the parameter is \<open>undefined\<close>.
\<close>

definition resetMousePosition :: "'s WebDriver \<Rightarrow> ('s, unit) promise" where
  "resetMousePosition browser = remote ResetMousePosition (drv_resetMouse browser)"

definition switchStory ::
  "'s WebDriver \<Rightarrow> Context \<Rightarrow> ('s, string optional \<times> ignoreElements) promise" where
  "switchStory browser ctx =
     (case currentTest ctx of
        None \<Rightarrow>
          throwP (newError
            ''Can't switch story, because test context doesn't have 'currentTest' field'')
      | Some test \<Rightarrow>
          (case story test of
             None \<Rightarrow>
               throwP (newError (''Current test '' @ [CHR 0x27] @ join (testScope ctx test)
                                 @ [CHR 0x27] @ '' context doesn't have 'story' field''))
           | Some st \<Rightarrow>
               bindP (resetMousePosition browser) (\<lambda>u.
               bindP (selectStory browser (story_id st) (kind st) (story_name st)
                        (case waitForReady (creeveyParams st) of None \<Rightarrow> False | Some b \<Rightarrow> b))
                 (\<lambda>u'.
               bindP (case captureElement (creeveyParams st) of
                        Undefined \<Rightarrow>
                          bindP (resolveCaptureElement browser) (\<lambda>resolved.
                            returnP (case resolved of None \<Rightarrow> Null | Some sel \<Rightarrow> Value sel))
                      | Null \<Rightarrow> returnP Null
                      | Value sel \<Rightarrow> returnP (Value sel))
                 (\<lambda>captureElement'.
                    returnP (captureElement', ignoreElements (creeveyParams st)))))))"

section \<open>Resolving the storybook URL\<close>

















section \<open>Opening a session\<close>













section \<open>Predicates on the log\<close>

definition isIgnoreStyleCall :: "call \<Rightarrow> bool" where
  "isIgnoreStyleCall c =
     (case c of
        ExecInsertIgnoreStyles sels \<Rightarrow> True
      | ExecRemoveIgnoreStyles style \<Rightarrow> True
      | _ \<Rightarrow> False)"

definition isCaptureCall :: "call \<Rightarrow> bool" where
  "isCaptureCall c =
     (case c of
        GetCapabilities \<Rightarrow> True
      | TakeScreenshot \<Rightarrow> True
      | FindElementTakeScreenshot sel \<Rightarrow> True
      | ExecScrollBarWidth \<Rightarrow> True
      | ExecScrollTo x y \<Rightarrow> True
      | ExecGetRects sel \<Rightarrow> True
      | _ \<Rightarrow> False)"

text \<open>\<open>issues P m\<close>: whenever \<open>m\<close> settles, the calls it has added to the log satisfy \<open>P\<close>.\<close>

definition issues :: "(call \<Rightarrow> bool) \<Rightarrow> ('s, 'a) promise \<Rightarrow> bool" where
  "issues P m =
     (\<forall>s r s'. m s = Some (r, s') \<longrightarrow> (\<exists>l. log s' = log s @ l \<and> list_all P l))"







section \<open>Sample inputs\<close>

definition window_800x600 :: ElementRect where
  "window_800x600 = \<lparr> top' = 0, left = 0, width = 800, height = 600 \<rparr>"

text \<open>
  The window of the scenario with a viewport of 800 by 600 and the scrollbars outside
  it. \<open>window.innerWidth\<close> and \<open>window.innerHeight\<close>, which the source measures,
  include the scrollbars; the element is 1600 wide, so a horizontal scrollbar of 15 lies
  under the 600 rows of the viewport, and no vertical one is shown.
\<close>

definition window_800x615 :: ElementRect where
  "window_800x615 = \<lparr> top' = 0, left = 0, width = 800, height = 615 \<rparr>"

definition element_1600x600 :: ElementRect where
  "element_1600x600 = \<lparr> top' = 0, left = 0, width = 1600, height = 600 \<rparr>"

definition fitRect :: ElementRect where
  "fitRect = \<lparr> top' = 10, left = 20, width = 300, height = 200 \<rparr>"

definition demoElements :: "string \<Rightarrow> ElementRect option" where
  "demoElements selector = (if selector = ''#root'' then Some fitRect else None)"

definition pixelPNG :: "nat \<Rightarrow> PNG" where
  "pixelPNG v = \<lparr> png_width = 1, png_height = 1, data = [v, v, v, 255] \<rparr>"

text \<open>
  A browser for the examples, over the scroll position as its state: a window of 800
  by 600, the elements \<open>elems\<close>, \<open>rootChildren\<close> children of the root container, and
  the hooks of the addon present or not.
\<close>

definition demoBrowser ::
  "(string \<Rightarrow> ElementRect option) \<Rightarrow> nat option \<Rightarrow> bool \<Rightarrow> (real \<times> real) WebDriver" where
  "demoBrowser elems rootChildren hooks =
     \<lparr> drv_get = (\<lambda>url w. (Inr (), w)),
       drv_getPageSource = (\<lambda>w. (Inr [], w)),
       drv_getCapabilities =
         (\<lambda>w. (Inr \<lparr> browserName = Some ''chrome'', browserVersion = Some ''90.0'' \<rparr>, w)),
       drv_takeScreenshot = (\<lambda>w. (Inr (pixelPNG 7), w)),
       drv_elementTakeScreenshot =
         (\<lambda>selector w. case elems selector of
             None \<Rightarrow> (Inl (Error ''NoSuchElementError'' selector selector), w)
           | Some r \<Rightarrow> (Inr (pixelPNG 9), w)),
       drv_resetMouse = (\<lambda>w. (Inr (), w)),
       page_scrollBarWidth = (\<lambda>w. (Inr 15, w)),
       page_scrollTo = (\<lambda>x y w. (Inr (), (x, y))),
       page_metrics =
         (\<lambda>selector w. (Inr \<lparr> boundingClientRect = elems selector, scrollY = 0, scrollX = 0,
                                innerWidth = 800, innerHeight = 600 \<rparr>, (0, 0))),
       page_rootChildElementCount = (\<lambda>w. (Inr rootChildren, w)),
       page_insertIgnoreStyles =
         (\<lambda>sels w. if hooks then (Inr (Some 1), w)
                    else (Inl (Error ''JavascriptError'' ''hook'' ''hook''), w)),
       page_removeIgnoreStyles =
         (\<lambda>style w. if hooks then (Inr (), w)
                     else (Inl (Error ''JavascriptError'' ''hook'' ''hook''), w)),
       page_selectStoryHook =
         (\<lambda>w. Inr (if hooks then Some (\<lambda>i k n ready w'. (Inr None, w')) else None)) \<rparr>"

text \<open>The same browser announcing itself as Safari, whose screenshots show no scrollbar.\<close>

definition safariBrowser :: "(real \<times> real) WebDriver" where
  "safariBrowser = (demoBrowser demoElements None True)
      \<lparr> drv_getCapabilities :=
          (\<lambda>w. (Inr \<lparr> browserName = Some ''Safari'', browserVersion = Some ''14.0'' \<rparr>, w)) \<rparr>"

definition state0 :: "(real \<times> real) state" where
  "state0 = \<lparr> world = (0, 0), log = [], cachedScrollBarWidth = None,
              browserVar = False, shuttingDown = False \<rparr>"

definition demoStory :: StoryInput where
  "demoStory = \<lparr> story_id = ''button--idle'', kind = ''Button'', story_name = ''idle'',
                 creevey = None \<rparr>"

definition demoContext :: Context where
  "demoContext = \<lparr> ctx_browserName = ''chrome'',
                   currentTest = Some \<lparr> titles = [''idle'', ''Button''],
                                        story = Some demoStory \<rparr> \<rparr>"











definition element_1600x585 :: ElementRect where
  "element_1600x585 = \<lparr> top' = 10, left = 0, width = 1600, height = 585 \<rparr>"

text \<open>
  A page scaled down, for a run of the whole composite capture: the window is 2 by 2,
  the scrollbar 1 wide, the element 4 by 1 at top 1. The pixel of the page at
  \<open>(px, py)\<close> carries the byte \<open>10 * px + py\<close>. The browser scrolls as it is asked, and
  its screenshot shows the page from the scroll position on.
\<close>

definition pagePixel :: "int \<Rightarrow> int \<Rightarrow> nat list" where
  "pagePixel px py = [nat (10 * px + py), 0, 0, 255]"

definition viewportShot :: "real \<times> real \<Rightarrow> PNG" where
  "viewportShot w =
     \<lparr> png_width = 2, png_height = 2,
       data = concat (map (\<lambda>v. concat (map (\<lambda>u. pagePixel (\<lfloor>fst w\<rfloor> + u) (\<lfloor>snd w\<rfloor> + v))
                                            [0..1]))
                          [0..1]) \<rparr>"

definition tinyBrowser :: "(real \<times> real) WebDriver" where
  "tinyBrowser = (demoBrowser demoElements None True)
      \<lparr> drv_takeScreenshot := (\<lambda>w. (Inr (viewportShot w), w)),
        page_scrollBarWidth := (\<lambda>w. (Inr 1, w)) \<rparr>"

definition tinyWindow :: ElementRect where
  "tinyWindow = \<lparr> top' = 0, left = 0, width = 2, height = 2 \<rparr>"

definition tinyElement :: ElementRect where
  "tinyElement = \<lparr> top' = 1, left = 0, width = 4, height = 1 \<rparr>"

section \<open>Lemmas on promises\<close>

lemmas geometry_defs =
  normalizedElementRect_def isFitHorizontally_def isFitVertically_def
  viewportWidth_def viewportHeight_def cols_def rows_def xOffset_def yOffset_def
  tile_dx_def tile_dy_def compositeWidth_def compositeHeight_def
  Math_ceil_def Math_floor_def Math_round_def

lemmas run_defs =
  takeScreenshot_def capture_def insertIgnoreStyles_def removeIgnoreStyles_def getRects_def
  ignoreSelectors_def concatIgnoreElements_def bindP_def finallyP_def returnP_def throwP_def
  remote_def
  isFitIntoViewport_def demoBrowser_def state0_def

lemma finallyP_returnP: "finallyP m (returnP ()) = m"
  by (rule ext) (simp add: finallyP_def returnP_def split: option.splits prod.splits)

lemma issues_returnP: "issues P (returnP a)"
  by (simp add: issues_def returnP_def)

lemma issues_throwP: "issues P (throwP e)"
  by (simp add: issues_def throwP_def)

lemma issues_neverP: "issues P neverP"
  by (simp add: issues_def neverP_def)

lemma issues_remote: "P c \<Longrightarrow> issues P (remote c f)"
  by (auto simp: issues_def remote_def split: prod.splits)

lemma issues_bindP:
  assumes "issues P m" and "\<And>a. issues P (f a)"
  shows "issues P (bindP m f)"
  unfolding issues_def
proof (intro allI impI)
  fix s r s'
  assume run: "bindP m f s = Some (r, s')"
  show "\<exists>l. log s' = log s @ l \<and> list_all P l"
  proof (cases "m s")
    case None
    with run show ?thesis by (simp add: bindP_def)
  next
    case (Some p)
    obtain r1 s1 where p: "p = (r1, s1)" by (cases p)
    from assms(1) Some p obtain l1 where l1: "log s1 = log s @ l1" "list_all P l1"
      unfolding issues_def by blast
    show ?thesis
    proof (cases r1)
      case (Inl e)
      with run Some p have "s' = s1" by (simp add: bindP_def)
      with l1 show ?thesis by blast
    next
      case (Inr a)
      with run Some p have "f a s1 = Some (r, s')" by (simp add: bindP_def)
      with assms(2) obtain l2 where "log s' = log s1 @ l2" "list_all P l2"
        unfolding issues_def by blast
      with l1 have "log s' = log s @ (l1 @ l2) \<and> list_all P (l1 @ l2)" by simp
      then show ?thesis by blast
    qed
  qed
qed

lemma issues_captureTiles:
  "P TakeScreenshot \<Longrightarrow> (\<And>x y. P (ExecScrollTo x y)) \<Longrightarrow> issues P (captureTiles browser targets)"
  by (induction targets) (auto intro!: issues_bindP issues_remote issues_returnP)

lemma issues_hasScrollBar: "P GetCapabilities \<Longrightarrow> issues P (hasScrollBar browser)"
  unfolding hasScrollBar_def by (intro issues_bindP issues_remote issues_returnP)

lemma issues_getScrollBarWidth: "P ExecScrollBarWidth \<Longrightarrow> issues P (getScrollBarWidth browser)"
  by (auto simp: issues_def getScrollBarWidth_def returnP_def bindP_def remote_def
           split: option.splits prod.splits sum.splits)

lemma issues_takeCompositeScreenshot:
  "issues isCaptureCall (takeCompositeScreenshot browser windowRect elementRect)"
  unfolding takeCompositeScreenshot_def
  by (intro issues_bindP issues_hasScrollBar issues_getScrollBarWidth)
     (auto simp: isCaptureCall_def intro!: issues_neverP issues_bindP issues_captureTiles
                 issues_throwP issues_returnP split: sum.splits)

lemma issues_capture: "issues isCaptureCall (capture browser cap)"
  unfolding capture_def getRects_def
  by (auto simp: isCaptureCall_def split: optional.splits option.splits
           intro!: issues_remote issues_bindP issues_throwP issues_returnP
                   issues_takeCompositeScreenshot)

lemma isCapture_not_ignore: "isCaptureCall c \<Longrightarrow> \<not> isIgnoreStyleCall c"
  by (cases c) (simp_all add: isCaptureCall_def isIgnoreStyleCall_def)








section \<open>The tile grid\<close>

text \<open>
  C3, as stated, fails in one point: a scroll target can be negative. For an element
  that starts 50 pixels left of the viewport the first tile is scrolled to \<open>-50\<close>; the
  clamp \<open>max(0, ..)\<close> bounds the target from above only.
\<close>

theorem C3_negative_scroll_target_counterexample:
  "\<not> 0 \<le> tile_dx 15 window_800x600 \<lparr> top' = 0, left = - 50, width = 1600, height = 600 \<rparr> 0"
  by (simp add: geometry_defs window_800x600_def)

text \<open>
  C3, amended. The tile width is the window width less the scrollbar width when the
  element needs vertical scrolling (its height and normalized top exceed the window
  height), and the tile height likewise when it needs horizontal scrolling; the grid is
  the ceiling of element size over tile size; on an axis that needs scrolling the
  trailing-tile offset is clamped at 0; a scroll target is the smaller of the tile
  position and a term clamped at 0, and is itself not negative when the normalized offset
  of the element and the tile size are not negative; the raster dimensions are the element dimensions rounded
  to the nearest integer. Tile sizes, grid and scroll targets are computed from
  unrounded values.
\<close>

theorem C3_tile_grid:
  "viewportWidth sb w e
     = width w - (if height w < height e + (top' e - top' w) then sb else 0)
   \<and> viewportHeight sb w e
     = height w - (if width w < width e + (left e - left w) then sb else 0)
   \<and> cols sb w e = \<lceil>width e / viewportWidth sb w e\<rceil>
   \<and> rows sb w e = \<lceil>height e / viewportHeight sb w e\<rceil>
   \<and> (\<not> isFitHorizontally w e \<longrightarrow> 0 \<le> xOffset sb w e)
   \<and> (\<not> isFitVertically w e \<longrightarrow> 0 \<le> yOffset sb w e)
   \<and> tile_dx sb w e col
       = min (viewportWidth sb w e * real_of_int col + (left e - left w))
             (max 0 (left e + width e - left w - viewportWidth sb w e))
   \<and> tile_dy sb w e row
       = min (viewportHeight sb w e * real_of_int row + (top' e - top' w))
             (max 0 (top' e + height e - top' w - viewportHeight sb w e))
   \<and> (0 \<le> left e - left w \<and> 0 \<le> viewportWidth sb w e \<and> 0 \<le> col
        \<longrightarrow> 0 \<le> tile_dx sb w e col)
   \<and> (0 \<le> top' e - top' w \<and> 0 \<le> viewportHeight sb w e \<and> 0 \<le> row
        \<longrightarrow> 0 \<le> tile_dy sb w e row)
   \<and> compositeWidth e = round (width e)
   \<and> compositeHeight e = round (height e)"
  by (auto simp: geometry_defs round_def not_le)

theorem C3_tile_grid_witness:
  "\<not> isFitHorizontally window_800x600 element_1600x600
   \<and> 0 \<le> left element_1600x600 - left window_800x600
   \<and> 0 \<le> top' element_1600x600 - top' window_800x600
   \<and> viewportWidth 15 window_800x600 element_1600x600 = 800
   \<and> viewportHeight 15 window_800x600 element_1600x600 = 585
   \<and> 0 \<le> xOffset 15 window_800x600 element_1600x600
   \<and> 0 \<le> tile_dx 15 window_800x600 element_1600x600 1
   \<and> 0 \<le> tile_dy 15 window_800x600 element_1600x600 1
   \<and> tile_dx 15 window_800x600 element_1600x600 1 = 800
   \<and> tile_dy 15 window_800x600 element_1600x600 1 = 15"
proof -
  have h: "\<not> isFitHorizontally window_800x600 element_1600x600"
    "0 \<le> left element_1600x600 - left window_800x600"
    "0 \<le> top' element_1600x600 - top' window_800x600"
    "viewportWidth 15 window_800x600 element_1600x600 = 800"
    "viewportHeight 15 window_800x600 element_1600x600 = 585"
    by (simp_all add: geometry_defs window_800x600_def element_1600x600_def)
  have v: "tile_dx 15 window_800x600 element_1600x600 1 = 800"
    "tile_dy 15 window_800x600 element_1600x600 1 = 15"
    by (simp_all add: geometry_defs window_800x600_def element_1600x600_def)
  from h C3_tile_grid [of 15 window_800x600 element_1600x600 1 1]
  have "0 \<le> xOffset 15 window_800x600 element_1600x600"
    "0 \<le> tile_dx 15 window_800x600 element_1600x600 1"
    "0 \<le> tile_dy 15 window_800x600 element_1600x600 1"
    by simp_all
  with h v show ?thesis by simp
qed

section \<open>The reconstruction of the composite\<close>

lemma pixel_j_source:
  "pixel_j noScrollBar sb w e x y
     = (source_row sb w e y * (viewportWidth sb w e + scrollOffset noScrollBar sb w e)
        + source_col sb w e x) * 4"
  by (simp add: pixel_j_def source_row_def source_col_def algebra_simps)

lemma below_round:
  fixes z :: real and x :: int
  assumes "x < Math_round z"
  shows "real_of_int x < z"
proof -
  from assms have "x + 1 \<le> \<lfloor>z + 1 / 2\<rfloor>" by (simp add: Math_round_def)
  then have "real_of_int (x + 1) \<le> z + 1 / 2" by (simp add: le_floor_iff)
  then show ?thesis by simp
qed

lemma tile_index_exact:
  fixes v :: real and x :: int and k :: nat
  assumes v: "0 < v" and x: "0 \<le> x" "real_of_int x < real k * v"
  shows "0 \<le> \<lfloor>real_of_int x / v\<rfloor>" "\<lfloor>real_of_int x / v\<rfloor> < int k"
    "js_rem (real_of_int x) v = real_of_int x - v * real_of_int \<lfloor>real_of_int x / v\<rfloor>"
proof -
  from v x have q: "0 \<le> real_of_int x / v" by simp
  then show "0 \<le> \<lfloor>real_of_int x / v\<rfloor>" by simp
  from v x have "real_of_int x / v < real k" by (simp add: pos_divide_less_eq)
  then show "\<lfloor>real_of_int x / v\<rfloor> < int k" by (simp add: floor_less_iff)
  from q show "js_rem (real_of_int x) v = real_of_int x - v * real_of_int \<lfloor>real_of_int x / v\<rfloor>"
    by (simp add: js_rem_def js_trunc_def)
qed

lemma page_col_exact:
  assumes v: "0 < viewportWidth sb w e"
    and mult: "width e = real k * viewportWidth sb w e"
    and off: "isFitHorizontally w e \<longrightarrow> Math_round (nleft (normalizedElementRect w e)) = 0"
    and x: "0 \<le> x" "x < compositeWidth e"
  shows "page_col sb w e x = nleft (normalizedElementRect w e) + real_of_int x
       \<and> 0 \<le> pixel_col sb w e x \<and> pixel_col sb w e x < cols sb w e"
proof -
  let ?v = "viewportWidth sb w e"
  let ?c = "\<lfloor>real_of_int x / ?v\<rfloor>"
  from x(2) have xw: "real_of_int x < real k * ?v"
    using below_round [of x "width e"] mult by (simp add: compositeWidth_def)
  note idx = tile_index_exact [OF v x(1) xw]
  have cols: "cols sb w e = int k"
    using v mult by (simp add: cols_def Math_ceil_def)
  have xo: "xOffset sb w e = 0"
    using off mult cols by (simp add: xOffset_def Math_round_def)
  have "real_of_int ?c \<le> real k - 1"
    using idx(2) by linarith
  then have "?v * real_of_int ?c \<le> ?v * (real k - 1)"
    using v by (simp add: mult_le_cancel_left_pos)
  then have le: "?v * real_of_int ?c + nleft (normalizedElementRect w e)
          \<le> nright (normalizedElementRect w e) - ?v"
    using mult by (simp add: normalizedElementRect_def algebra_simps)
  have dx: "tile_dx sb w e ?c = ?v * real_of_int ?c + nleft (normalizedElementRect w e)"
    using le by (simp add: tile_dx_def min_def max_def)
  have "page_col sb w e x = nleft (normalizedElementRect w e) + real_of_int x"
    using dx idx(3) xo
    by (simp add: page_col_def source_col_def pixel_col_def Math_floor_def)
  with idx cols show ?thesis by (simp add: pixel_col_def Math_floor_def)
qed

lemma page_row_exact:
  assumes v: "0 < viewportHeight sb w e"
    and mult: "height e = real m * viewportHeight sb w e"
    and off: "isFitVertically w e \<longrightarrow> Math_round (ntop (normalizedElementRect w e)) = 0"
    and y: "0 \<le> y" "y < compositeHeight e"
  shows "page_row sb w e y = ntop (normalizedElementRect w e) + real_of_int y
       \<and> 0 \<le> pixel_row sb w e y \<and> pixel_row sb w e y < rows sb w e"
proof -
  let ?v = "viewportHeight sb w e"
  let ?r = "\<lfloor>real_of_int y / ?v\<rfloor>"
  from y(2) have yh: "real_of_int y < real m * ?v"
    using below_round [of y "height e"] mult by (simp add: compositeHeight_def)
  note idx = tile_index_exact [OF v y(1) yh]
  have rows: "rows sb w e = int m"
    using v mult by (simp add: rows_def Math_ceil_def)
  have yo: "yOffset sb w e = 0"
    using off mult rows by (simp add: yOffset_def Math_round_def)
  have "real_of_int ?r \<le> real m - 1"
    using idx(2) by linarith
  then have "?v * real_of_int ?r \<le> ?v * (real m - 1)"
    using v by (simp add: mult_le_cancel_left_pos)
  then have le: "?v * real_of_int ?r + ntop (normalizedElementRect w e)
          \<le> nbottom (normalizedElementRect w e) - ?v"
    using mult by (simp add: normalizedElementRect_def algebra_simps)
  have dy: "tile_dy sb w e ?r = ?v * real_of_int ?r + ntop (normalizedElementRect w e)"
    using le by (simp add: tile_dy_def min_def max_def)
  have "page_row sb w e y = ntop (normalizedElementRect w e) + real_of_int y"
    using dy idx(3) yo
    by (simp add: page_row_def source_row_def pixel_row_def Math_floor_def)
  with idx rows show ?thesis by (simp add: pixel_row_def Math_floor_def)
qed

text \<open>
  Where the reconstruction is exact. Let the element be \<open>k\<close> tiles wide and \<open>m\<close> tiles
  high, the tile size positive, and let the normalized offset round to 0 on an axis on
  which the element counts as fitting. Then every pixel \<open>(x, y)\<close> of the output is read
  from one of the captured tiles, at the point of the page where the element has its
  pixel \<open>(x, y)\<close>.
\<close>

lemma composite_exact_multiple:
  assumes "0 < viewportWidth sb w e" "0 < viewportHeight sb w e"
    and "width e = real k * viewportWidth sb w e"
    and "height e = real m * viewportHeight sb w e"
    and "isFitHorizontally w e \<longrightarrow> Math_round (nleft (normalizedElementRect w e)) = 0"
    and "isFitVertically w e \<longrightarrow> Math_round (ntop (normalizedElementRect w e)) = 0"
    and "0 \<le> x" "x < compositeWidth e" "0 \<le> y" "y < compositeHeight e"
  shows "page_col sb w e x = nleft (normalizedElementRect w e) + real_of_int x
       \<and> page_row sb w e y = ntop (normalizedElementRect w e) + real_of_int y
       \<and> 0 \<le> pixel_image sb w e x y
       \<and> pixel_image sb w e x y < rows sb w e * cols sb w e"
proof -
  note c = page_col_exact [OF assms(1,3,5,7,8)]
  note r = page_row_exact [OF assms(2,4,6,9,10)]
  let ?c = "pixel_col sb w e x" and ?r = "pixel_row sb w e y"
  let ?C = "cols sb w e" and ?R = "rows sb w e"
  from c r have b: "0 \<le> ?c" "?c < ?C" "0 \<le> ?r" "?r + 1 \<le> ?R" by simp_all
  have "?r * ?C + ?c < (?r + 1) * ?C"
    using b(2) by (simp add: algebra_simps)
  also have "\<dots> \<le> ?R * ?C"
    using b(4) b(1,2) by (intro mult_right_mono) simp_all
  finally have "pixel_image sb w e x y < ?R * ?C" by (simp add: pixel_image_def)
  moreover have "0 \<le> pixel_image sb w e x y"
    using b by (simp add: pixel_image_def)
  ultimately show ?thesis using c r by simp
qed

text \<open>
  C2 fails on the code for an element that counts as fitting on an axis without fitting
  into the tile. Window 800 by 600, scrollbar width 15, element 1600 by 585 at top 10:
  the element is two tiles wide and one tile high, and the capture is composite. The
  vertical axis counts as fitting (585 + 10 is within 600), yet the tile is only 585
  high, so the tile is scrolled to 10; and the offset 10 is still added to the row. The
  output row 0 is read from row 10 of the tile, the row of the page at 20, while the
  element starts at 10: its first ten rows are missing, and the output row 584 is read
  from row 594 of a tile that shows 585 rows of the page.
\<close>

theorem C2_failing_input:
  "\<not> isFitIntoViewport window_800x600 element_1600x585
   \<and> isFitVertically window_800x600 element_1600x585
   \<and> width element_1600x585 = 2 * viewportWidth 15 window_800x600 element_1600x585
   \<and> height element_1600x585 = 1 * viewportHeight 15 window_800x600 element_1600x585
   \<and> viewportHeight 15 window_800x600 element_1600x585 = 585
   \<and> compositeHeight element_1600x585 = 585
   \<and> tile_dy 15 window_800x600 element_1600x585
        (pixel_row 15 window_800x600 element_1600x585 0) = 10
   \<and> source_row 15 window_800x600 element_1600x585 0 = 10
   \<and> page_row 15 window_800x600 element_1600x585 0 = 20
   \<and> ntop (normalizedElementRect window_800x600 element_1600x585) + 0 = 10
   \<and> source_row 15 window_800x600 element_1600x585 584 = 594
   \<and> pixel_j False 15 window_800x600 element_1600x585 0 0 = (10 * 800 + 0) * 4"
  by (simp add: geometry_defs window_800x600_def element_1600x585_def isFitIntoViewport_def
        page_row_def source_row_def pixel_row_def isLastRow_def js_rem_def js_trunc_def
        pixel_j_def scrollOffset_def isLastCol_def pixel_col_def)

text \<open>
  The same defect in a run of the whole capture, scaled down: the element, two tiles
  wide and one tile high, is the row 1 of the page; the output is the row 2.
\<close>

lemma composite_run_misses_rows:
  "map_option (\<lambda>p. (map_sum id data (fst p), log (snd p)))
     (takeCompositeScreenshot tinyBrowser tinyWindow tinyElement state0)
   = Some (Inr (pagePixel 0 2 @ pagePixel 1 2 @ pagePixel 2 2 @ pagePixel 3 2),
           [GetCapabilities, GetCapabilities, ExecScrollBarWidth,
            ExecScrollTo 0 1, TakeScreenshot, ExecScrollTo 2 1, TakeScreenshot])"
  by code_simp

section \<open>The 800 by 600 scenario\<close>

text \<open>
  The window of the scenario is determined by its viewport: for an element 1600 by 600 at
  the origin of the window and a scrollbar of 15, the tiles of the source are 800 by 600
  only in a window of 800 by 615.
\<close>

lemma window_of_viewport_800x600:
  assumes "viewportWidth 15 w e = 800" and "viewportHeight 15 w e = 600"
    and "width e = 1600" and "height e = 600" and "left e = left w" and "top' e = top' w"
  shows "width w = 800 \<and> height w = 615"
  using assms
  by (auto simp: viewportWidth_def viewportHeight_def isFitHorizontally_def isFitVertically_def
                 normalizedElementRect_def split: if_splits)

lemma captureTiles_settles:
  assumes scroll: "\<forall>x y w. fst (page_scrollTo browser x y w) = Inr ()"
    and shot: "\<forall>w. \<exists>png. fst (drv_takeScreenshot browser w) = Inr png"
  shows "\<exists>images s'. captureTiles browser targets s = Some (Inr images, s')
           \<and> length images = length targets
           \<and> log s' = log s @ concat (map (\<lambda>t. [ExecScrollTo (fst t) (snd t), TakeScreenshot])
                                          targets)"
proof (induction targets arbitrary: s)
  case Nil
  show ?case by (simp add: returnP_def)
next
  case (Cons t targets)
  obtain r1 w1 where a: "page_scrollTo browser (fst t) (snd t) (world s) = (r1, w1)"
    by (cases "page_scrollTo browser (fst t) (snd t) (world s)")
  with scroll [rule_format, of "fst t" "snd t" "world s"] have r1: "r1 = Inr ()" by simp
  obtain r2 w2 where b: "drv_takeScreenshot browser w1 = (r2, w2)"
    by (cases "drv_takeScreenshot browser w1")
  with shot [rule_format, of w1] obtain png where r2: "r2 = Inr png" by auto
  define s2 where "s2 = s\<lparr> world := w2,
      log := log s @ [ExecScrollTo (fst t) (snd t), TakeScreenshot] \<rparr>"
  from Cons [of s2] obtain images s' where rest:
    "captureTiles browser targets s2 = Some (Inr images, s')"
    "length images = length targets"
    "log s' = log s2 @ concat (map (\<lambda>t. [ExecScrollTo (fst t) (snd t), TakeScreenshot]) targets)"
    by blast
  have "captureTiles browser (t # targets) s = Some (Inr (png # images), s')"
    using a b r1 r2 rest(1) by (simp add: bindP_def remote_def returnP_def s2_def)
  with rest(2,3) show ?case by (simp add: s2_def)
qed

lemma copyPixels_settles:
  assumes "\<forall>p \<in> set ps. \<forall>d. \<exists>d'. body d p = Inr d' \<and> length d' = length d"
  shows "\<exists>d'. copyPixels body ps d = Inr d' \<and> length d' = length d"
  using assms
proof (induction ps arbitrary: d)
  case Nil
  show ?case by simp
next
  case (Cons p ps)
  from Cons.prems have "\<exists>d'. body d p = Inr d' \<and> length d' = length d" by simp
  then obtain d1 where d1: "body d p = Inr d1" "length d1 = length d" by blast
  from Cons.prems have "\<forall>p \<in> set ps. \<forall>d. \<exists>d'. body d p = Inr d' \<and> length d' = length d"
    by simp
  from Cons.IH [OF this, of d1] d1 show ?case by simp
qed

lemma compositePixels_set:
  "p \<in> set (compositePixels e)
     \<longleftrightarrow> 0 \<le> fst p \<and> fst p < compositeWidth e \<and> 0 \<le> snd p \<and> snd p < compositeHeight e"
  by (cases p) (auto simp: compositePixels_def image_iff)

lemma scenario_geometry:
  "isFitVertically window_800x615 element_1600x600"
  "\<not> isFitHorizontally window_800x615 element_1600x600"
  "viewportWidth 15 window_800x615 element_1600x600 = 800"
  "viewportHeight 15 window_800x615 element_1600x600 = 600"
  "cols 15 window_800x615 element_1600x600 = 2"
  "rows 15 window_800x615 element_1600x600 = 1"
  "compositeWidth element_1600x600 = 1600"
  "compositeHeight element_1600x600 = 600"
  "nleft (normalizedElementRect window_800x615 element_1600x600) = 0"
  "ntop (normalizedElementRect window_800x615 element_1600x600) = 0"
  "nright (normalizedElementRect window_800x615 element_1600x600) = 1600"
  "nbottom (normalizedElementRect window_800x615 element_1600x600) = 600"
  "width element_1600x600 = 1600"
  "height element_1600x600 = 600"
  by (simp_all add: geometry_defs window_800x615_def element_1600x600_def)

lemma scenario_targets:
  "tileTargets 15 window_800x615 element_1600x600 = [(0, 0), (800, 0)]"
proof -
  have "[0..(0::int)] = [0]" "[0..(1::int)] = [0, 1]" by (simp_all add: upto.simps)
  then show ?thesis
    by (simp add: tileTargets_def tile_dx_def tile_dy_def scenario_geometry)
qed

lemma scenario_pixel:
  assumes "0 \<le> x" "x < 1600" "0 \<le> y" "y < 600"
  shows "page_col 15 window_800x615 element_1600x600 x = real_of_int x
       \<and> page_row 15 window_800x615 element_1600x600 y = real_of_int y
       \<and> 0 \<le> pixel_image 15 window_800x615 element_1600x600 x y
       \<and> pixel_image 15 window_800x615 element_1600x600 x y < 2"
  using composite_exact_multiple [of 15 window_800x615 element_1600x600 2 1 x y] assms
  by (simp add: scenario_geometry Math_round_def)

lemma copyPixel_settles:
  assumes "0 \<le> pixel_image sb w e (fst p) (snd p)"
    and "nat (pixel_image sb w e (fst p) (snd p)) < length images"
  shows "\<exists>d'. copyPixel noScrollBar sb w e images d p = Inr d' \<and> length d' = length d"
  using assms by (simp add: copyPixel_def Let_def)

lemma run_step:
  assumes caps: "hasScrollBar browser s = Some (Inr False, s1)"
    and sb: "getScrollBarWidth browser s1 = Some (Inr 15, s2)"
    and tiles: "captureTiles browser [(0, 0), (800, 0)] s2 = Some (Inr images, s3)"
    and dat: "copyPixels (copyPixel True 15 window_800x615 element_1600x600 images)
                (compositePixels element_1600x600) (newPNGdata element_1600x600) = Inr dat"
  shows "takeCompositeScreenshot browser window_800x615 element_1600x600 s
          = Some (Inr \<lparr> png_width = 1600, png_height = 600, data = dat \<rparr>, s3)"
proof -
  have a: "takeCompositeScreenshot browser window_800x615 element_1600x600 s
     = (if viewportWidth 15 window_800x615 element_1600x600 = 0
          \<or> viewportHeight 15 window_800x615 element_1600x600 = 0
       then neverP
       else
         bindP (captureTiles browser (tileTargets 15 window_800x615 element_1600x600))
           (\<lambda>images.
              case copyPixels
                     (copyPixel (\<not> False) 15 window_800x615 element_1600x600 images)
                     (compositePixels element_1600x600) (newPNGdata element_1600x600) of
                Inl e \<Rightarrow> throwP e
              | Inr dat \<Rightarrow>
                  returnP \<lparr> png_width = compositeWidth element_1600x600,
                            png_height = compositeHeight element_1600x600,
                            data = dat \<rparr>)) s2"
    unfolding takeCompositeScreenshot_def
    by (simp only: bindP_def caps sb option.case prod.case sum.case)
  have nz: "((800::real) = 0) = False" "((600::real) = 0) = False" by simp_all
  show ?thesis
    unfolding a scenario_geometry scenario_targets
    by (simp only: nz bindP_def tiles dat option.case prod.case sum.case returnP_def
                   simp_thms if_False)
qed

text \<open>
  When \<open>window.innerHeight\<close> itself is 600, the scrollbar takes 15 of the 600 rows: the
  tiles are 585 high and the element takes two rows of them. The scenario, whose
  scrollbars are outside the viewport, is not this input.
\<close>

lemma grid_window_800x600:
  "viewportHeight 15 window_800x600 element_1600x600 = 585
   \<and> rows 15 window_800x600 element_1600x600 = 2"
  by (simp add: geometry_defs window_800x600_def element_1600x600_def)

text \<open>
  C1. The scenario: a viewport of 800 by 600 with the scrollbar, 15 wide, outside it, and
  an element of 1600 by 600 at the origin. The window whose tiles are 800 by 600 is the
  window of 800 by 615, and there the source computes two columns and one row of tiles
  800 wide; no vertical scroll is needed. Every pixel \<open>(x, y)\<close> of the output is read from
  one of the two tiles, at the point \<open>(x, y)\<close> of the page. In a browser whose screenshots
  show no scrollbar (\<open>hasScrollBar\<close> answers false), whose scrollbar is measured as 15 and
  which scrolls and takes its screenshots without throwing, \<open>takeCompositeScreenshot\<close>
  returns an image of exactly 1600 by 600 pixels, after scrolling to \<open>(0, 0)\<close> and to
  \<open>(800, 0)\<close> with one screenshot each.
\<close>

theorem C1_viewport_800x600:
  assumes caps: "hasScrollBar browser s = Some (Inr False, s1)"
    and sb: "getScrollBarWidth browser s1 = Some (Inr 15, s2)"
    and scroll: "\<forall>x y w. fst (page_scrollTo browser x y w) = Inr ()"
    and shot: "\<forall>w. \<exists>png. fst (drv_takeScreenshot browser w) = Inr png"
  shows "(\<forall>w e. viewportWidth 15 w e = 800 \<and> viewportHeight 15 w e = 600
                 \<and> width e = 1600 \<and> height e = 600 \<and> left e = left w \<and> top' e = top' w
               \<longrightarrow> width w = 800 \<and> height w = 615)
       \<and> viewportWidth 15 window_800x615 element_1600x600 = 800
       \<and> viewportHeight 15 window_800x615 element_1600x600 = 600
       \<and> isFitVertically window_800x615 element_1600x600
       \<and> cols 15 window_800x615 element_1600x600 = 2
       \<and> rows 15 window_800x615 element_1600x600 = 1
       \<and> compositeWidth element_1600x600 = 1600
       \<and> compositeHeight element_1600x600 = 600
       \<and> (\<forall>x y. 0 \<le> x \<and> x < 1600 \<and> 0 \<le> y \<and> y < 600 \<longrightarrow>
             page_col 15 window_800x615 element_1600x600 x = real_of_int x
           \<and> page_row 15 window_800x615 element_1600x600 y = real_of_int y
           \<and> 0 \<le> pixel_image 15 window_800x615 element_1600x600 x y
           \<and> pixel_image 15 window_800x615 element_1600x600 x y < 2)
       \<and> (\<exists>png s'. takeCompositeScreenshot browser window_800x615 element_1600x600 s
                      = Some (Inr png, s')
                  \<and> png_width png = 1600 \<and> png_height png = 600
                  \<and> length (data png) = 4 * 1600 * 600
                  \<and> log s' = log s2 @ [ExecScrollTo 0 0, TakeScreenshot,
                                       ExecScrollTo 800 0, TakeScreenshot])"
proof -
  let ?w = window_800x615 and ?e = element_1600x600
  from captureTiles_settles [OF scroll shot, of "[(0, 0), (800, 0)]" s2]
  obtain images s3 where tiles:
    "captureTiles browser [(0, 0), (800, 0)] s2 = Some (Inr images, s3)"
    "length images = 2"
    "log s3 = log s2 @ [ExecScrollTo 0 0, TakeScreenshot, ExecScrollTo 800 0, TakeScreenshot]"
    by auto
  have "\<forall>p \<in> set (compositePixels ?e). \<forall>d. \<exists>d'.
          copyPixel True 15 ?w ?e images d p = Inr d' \<and> length d' = length d"
  proof (intro ballI allI)
    fix p d
    assume "p \<in> set (compositePixels ?e)"
    then have "0 \<le> fst p" "fst p < 1600" "0 \<le> snd p" "snd p < 600"
      by (simp_all add: compositePixels_set scenario_geometry)
    from scenario_pixel [OF this] tiles(2)
    show "\<exists>d'. copyPixel True 15 ?w ?e images d p = Inr d' \<and> length d' = length d"
      by (intro copyPixel_settles) auto
  qed
  from copyPixels_settles [OF this, of "newPNGdata ?e"] obtain dat where dat:
    "copyPixels (copyPixel True 15 ?w ?e images) (compositePixels ?e) (newPNGdata ?e) = Inr dat"
    "length dat = length (newPNGdata ?e)"
    by blast
  have "takeCompositeScreenshot browser ?w ?e s
          = Some (Inr \<lparr> png_width = 1600, png_height = 600, data = dat \<rparr>, s3)"
    using caps sb tiles(1) dat(1) by (rule run_step)
  moreover have "length (newPNGdata ?e) = nat (4 * compositeWidth ?e * compositeHeight ?e)"
    by (simp only: newPNGdata_def length_replicate)
  then have "length dat = 4 * 1600 * 600"
    using dat(2) by (simp add: scenario_geometry)
  ultimately have run: "\<exists>png s'. takeCompositeScreenshot browser ?w ?e s = Some (Inr png, s')
                  \<and> png_width png = 1600 \<and> png_height png = 600
                  \<and> length (data png) = 4 * 1600 * 600
                  \<and> log s' = log s2 @ [ExecScrollTo 0 0, TakeScreenshot,
                                       ExecScrollTo 800 0, TakeScreenshot]"
    using tiles(3) by simp
  have window: "\<forall>w e. viewportWidth 15 w e = 800 \<and> viewportHeight 15 w e = 600
                 \<and> width e = 1600 \<and> height e = 600 \<and> left e = left w \<and> top' e = top' w
               \<longrightarrow> width w = 800 \<and> height w = 615"
    using window_of_viewport_800x600 by blast
  have pixels: "\<forall>x y. 0 \<le> x \<and> x < 1600 \<and> 0 \<le> y \<and> y < 600 \<longrightarrow>
             page_col 15 ?w ?e x = real_of_int x
           \<and> page_row 15 ?w ?e y = real_of_int y
           \<and> 0 \<le> pixel_image 15 ?w ?e x y
           \<and> pixel_image 15 ?w ?e x y < 2"
    using scenario_pixel by blast
  show ?thesis
    by (intro conjI window pixels run scenario_geometry(1) scenario_geometry(3)
              scenario_geometry(4) scenario_geometry(5) scenario_geometry(6)
              scenario_geometry(7) scenario_geometry(8))
qed

lemma demo_safari:
  "hasScrollBar safariBrowser state0
     = Some (Inr False, state0\<lparr> log := [GetCapabilities, GetCapabilities] \<rparr>)"
  "getScrollBarWidth safariBrowser (state0\<lparr> log := [GetCapabilities, GetCapabilities] \<rparr>)
     = Some (Inr 15, state0\<lparr> log := [GetCapabilities, GetCapabilities, ExecScrollBarWidth],
                            cachedScrollBarWidth := Some 15 \<rparr>)"
  "\<forall>x y w. fst (page_scrollTo safariBrowser x y w) = Inr ()"
  "\<forall>w. \<exists>png. fst (drv_takeScreenshot safariBrowser w) = Inr png"
  by (simp_all add: hasScrollBar_def getScrollBarWidth_def safariBrowser_def demoBrowser_def
                    state0_def bindP_def returnP_def remote_def)

theorem C1_viewport_800x600_witness:
  "viewportWidth 15 window_800x615 element_1600x600 = 800
   \<and> viewportHeight 15 window_800x615 element_1600x600 = 600
   \<and> width element_1600x600 = 1600 \<and> height element_1600x600 = 600
   \<and> left element_1600x600 = left window_800x615
   \<and> top' element_1600x600 = top' window_800x615
   \<and> width window_800x615 = 800 \<and> height window_800x615 = 615
   \<and> page_col 15 window_800x615 element_1600x600 1599 = 1599
   \<and> page_row 15 window_800x615 element_1600x600 599 = 599
   \<and> pixel_image 15 window_800x615 element_1600x600 1599 599 < 2
   \<and> (\<exists>png s'. takeCompositeScreenshot safariBrowser window_800x615 element_1600x600 state0
                  = Some (Inr png, s')
              \<and> png_width png = 1600 \<and> png_height png = 600
              \<and> length (data png) = 4 * 1600 * 600
              \<and> log s' = [GetCapabilities, GetCapabilities, ExecScrollBarWidth,
                          ExecScrollTo 0 0, TakeScreenshot, ExecScrollTo 800 0, TakeScreenshot])"
proof -
  note run = C1_viewport_800x600 [OF demo_safari]
  have given: "viewportWidth 15 window_800x615 element_1600x600 = 800
      \<and> viewportHeight 15 window_800x615 element_1600x600 = 600
      \<and> width element_1600x600 = 1600 \<and> height element_1600x600 = 600
      \<and> left element_1600x600 = left window_800x615
      \<and> top' element_1600x600 = top' window_800x615"
    by (simp add: scenario_geometry) (simp add: element_1600x600_def window_800x615_def)
  from run have "\<forall>w e. viewportWidth 15 w e = 800 \<and> viewportHeight 15 w e = 600
                 \<and> width e = 1600 \<and> height e = 600 \<and> left e = left w \<and> top' e = top' w
               \<longrightarrow> width w = 800 \<and> height w = 615"
    by (rule conjunct1)
  from this [rule_format, OF given]
  have window: "width window_800x615 = 800 \<and> height window_800x615 = 615" .
  from run have "\<forall>x y. 0 \<le> x \<and> x < 1600 \<and> 0 \<le> y \<and> y < 600 \<longrightarrow>
             page_col 15 window_800x615 element_1600x600 x = real_of_int x
           \<and> page_row 15 window_800x615 element_1600x600 y = real_of_int y
           \<and> 0 \<le> pixel_image 15 window_800x615 element_1600x600 x y
           \<and> pixel_image 15 window_800x615 element_1600x600 x y < 2"
    by (elim conjE)
  from this [rule_format, of 1599 599]
  have pixel: "page_col 15 window_800x615 element_1600x600 1599 = 1599
           \<and> page_row 15 window_800x615 element_1600x600 599 = 599
           \<and> pixel_image 15 window_800x615 element_1600x600 1599 599 < 2"
    by simp
  from run have "\<exists>png s'. takeCompositeScreenshot safariBrowser window_800x615 element_1600x600
                   state0 = Some (Inr png, s')
              \<and> png_width png = 1600 \<and> png_height png = 600
              \<and> length (data png) = 4 * 1600 * 600
              \<and> log s' = log (state0\<lparr> log := [GetCapabilities, GetCapabilities,
                                                ExecScrollBarWidth],
                                       cachedScrollBarWidth := Some 15 \<rparr>)
                         @ [ExecScrollTo 0 0, TakeScreenshot, ExecScrollTo 800 0, TakeScreenshot]"
    by (elim conjE)
  then have shot: "\<exists>png s'. takeCompositeScreenshot safariBrowser window_800x615
                   element_1600x600 state0 = Some (Inr png, s')
              \<and> png_width png = 1600 \<and> png_height png = 600
              \<and> length (data png) = 4 * 1600 * 600
              \<and> log s' = [GetCapabilities, GetCapabilities, ExecScrollBarWidth,
                          ExecScrollTo 0 0, TakeScreenshot, ExecScrollTo 800 0, TakeScreenshot]"
    by simp
  from given window pixel shot show ?thesis by (elim conjE, intro conjI)
qed

section \<open>Ignore styles and the capture\<close>

text \<open>
  C10: when no selector is left after the empty entries are dropped,
  \<open>insertIgnoreStyles\<close> returns \<open>null\<close> and leaves the state as it is (no call), the
  removal of \<open>null\<close> does the same, \<open>takeScreenshot\<close> is the bare capture, and no call
  that it logs is a call of an ignore-style hook.
\<close>

theorem C10_no_ignore_selectors:
  assumes "ignoreSelectors ign = []"
  shows "insertIgnoreStyles browser ign s = Some (Inr None, s)
       \<and> removeIgnoreStyles browser None s' = Some (Inr (), s')
       \<and> takeScreenshot browser cap ign s = capture browser cap s
       \<and> (\<forall>r s''. takeScreenshot browser cap ign s = Some (r, s'')
            \<longrightarrow> (\<exists>l. log s'' = log s @ l \<and> list_all (\<lambda>c. \<not> isIgnoreStyleCall c) l))"
proof -
  have ins: "insertIgnoreStyles browser ign s = Some (Inr None, s)"
    using assms by (simp add: insertIgnoreStyles_def returnP_def)
  have rem: "removeIgnoreStyles browser None = returnP ()"
    by (rule ext) (simp add: removeIgnoreStyles_def)
  have same: "takeScreenshot browser cap ign s = capture browser cap s"
    using ins by (simp add: takeScreenshot_def bindP_def rem finallyP_returnP)
  have "\<exists>l. log s'' = log s @ l \<and> list_all (\<lambda>c. \<not> isIgnoreStyleCall c) l"
    if "takeScreenshot browser cap ign s = Some (r, s'')" for r s''
  proof -
    from that same have "capture browser cap s = Some (r, s'')" by simp
    with issues_capture [of browser cap] obtain l
      where "log s'' = log s @ l" "list_all isCaptureCall l"
      unfolding issues_def by blast
    then show ?thesis
      using isCapture_not_ignore by (auto simp: list_all_iff)
  qed
  with ins rem same show ?thesis by (simp add: returnP_def)
qed

theorem C10_no_ignore_selectors_witness:
  "ignoreSelectors (IgnoreSelectors [[], []]) = []
   \<and> insertIgnoreStyles (demoBrowser demoElements None True) (IgnoreSelectors [[], []]) state0
       = Some (Inr None, state0)
   \<and> takeScreenshot (demoBrowser demoElements None True) Null (IgnoreSelectors [[], []]) state0
       = Some (Inr (pixelPNG 7), state0\<lparr> log := [TakeScreenshot] \<rparr>)
   \<and> list_all (\<lambda>c. \<not> isIgnoreStyleCall c) [TakeScreenshot]"
proof -
  have h: "ignoreSelectors (IgnoreSelectors [[], []]) = []"
    by (simp add: ignoreSelectors_def concatIgnoreElements_def)
  have c: "capture (demoBrowser demoElements None True) Null state0
             = Some (Inr (pixelPNG 7), state0\<lparr> log := [TakeScreenshot] \<rparr>)"
    by (simp add: run_defs)
  from C10_no_ignore_selectors [OF h, of "demoBrowser demoElements None True" state0 state0 Null] c
  show ?thesis using h by (simp add: isIgnoreStyleCall_def)
qed

text \<open>
  C4: let the ignore styles be inserted, the selector be non-empty and the measuring
  script find an element with left + width and top + height within the window. Then the
  capture is the answer of the element screenshot, taken right after the measuring and
  passed on as it is, image or failure; no other call is made, so no tile is scrolled
  to or captured; and \<open>takeScreenshot\<close> returns that same answer once the ignore styles
  are removed.
\<close>

theorem C4_fits_into_viewport:
  assumes ins: "insertIgnoreStyles browser ign s = Some (Inr ignoreStyles, s1)"
    and sel: "selector \<noteq> []"
    and rects: "getRects browser selector s1 = Some (Inr (Some (elementRect, windowRect)), s2)"
    and fit: "left elementRect + width elementRect \<le> width windowRect"
             "top' elementRect + height elementRect \<le> height windowRect"
    and rem: "removeIgnoreStyles browser ignoreStyles
                (s2\<lparr> world := snd (drv_elementTakeScreenshot browser selector (world s2)),
                     log := log s2 @ [FindElementTakeScreenshot selector] \<rparr>)
              = Some (Inr (), s4)"
  shows "capture browser (Value selector) s1
           = Some (fst (drv_elementTakeScreenshot browser selector (world s2)),
                   s2\<lparr> world := snd (drv_elementTakeScreenshot browser selector (world s2)),
                        log := log s2 @ [FindElementTakeScreenshot selector] \<rparr>)
       \<and> takeScreenshot browser (Value selector) ign s
           = Some (fst (drv_elementTakeScreenshot browser selector (world s2)), s4)
       \<and> log s2 = log s1 @ [ExecGetRects selector]"
proof -
  let ?s3 = "s2\<lparr> world := snd (drv_elementTakeScreenshot browser selector (world s2)),
                  log := log s2 @ [FindElementTakeScreenshot selector] \<rparr>"
  let ?r = "fst (drv_elementTakeScreenshot browser selector (world s2))"
  have fits: "isFitIntoViewport windowRect elementRect"
    using fit by (simp add: isFitIntoViewport_def add.commute)
  have cap: "capture browser (Value selector) s1 = Some (?r, ?s3)"
    using sel rects fits
    by (simp add: capture_def bindP_def remote_def split: prod.splits)
  have shot: "takeScreenshot browser (Value selector) ign s = Some (?r, s4)"
    using ins cap rem by (simp add: takeScreenshot_def bindP_def finallyP_def)
  have "log s2 = log s1 @ [ExecGetRects selector]"
    using rects
    by (auto simp: getRects_def bindP_def remote_def returnP_def
             split: prod.splits sum.splits)
  with cap shot show ?thesis by simp
qed

theorem C4_fits_into_viewport_witness:
  "takeScreenshot (demoBrowser demoElements None True) (Value ''#root'')
     (IgnoreSelector ''.date'') state0
   = Some (Inr (pixelPNG 9),
           state0\<lparr> log := [ExecInsertIgnoreStyles [''.date''], ExecGetRects ''#root'',
                             FindElementTakeScreenshot ''#root'', ExecRemoveIgnoreStyles 1] \<rparr>)
   \<and> left fitRect + width fitRect \<le> width window_800x600
   \<and> top' fitRect + height fitRect \<le> height window_800x600"
proof -
  let ?b = "demoBrowser demoElements None True"
  let ?s1 = "state0\<lparr> log := [ExecInsertIgnoreStyles [''.date'']] \<rparr>"
  let ?s2 = "state0\<lparr> log := [ExecInsertIgnoreStyles [''.date''], ExecGetRects ''#root''] \<rparr>"
  let ?s4 = "state0\<lparr> log := [ExecInsertIgnoreStyles [''.date''], ExecGetRects ''#root'',
                               FindElementTakeScreenshot ''#root'', ExecRemoveIgnoreStyles 1] \<rparr>"
  have ins: "insertIgnoreStyles ?b (IgnoreSelector ''.date'') state0 = Some (Inr (Some 1), ?s1)"
    by (simp add: run_defs)
  have sel: "''#root'' \<noteq> []" by simp
  have rects: "getRects ?b ''#root'' ?s1 = Some (Inr (Some (fitRect, window_800x600)), ?s2)"
    by (simp add: run_defs demoElements_def fitRect_def window_800x600_def Math_round_def)
  have fit: "left fitRect + width fitRect \<le> width window_800x600"
    "top' fitRect + height fitRect \<le> height window_800x600"
    by (simp_all add: fitRect_def window_800x600_def)
  have rem: "removeIgnoreStyles ?b (Some 1)
               (?s2\<lparr> world := snd (drv_elementTakeScreenshot ?b ''#root'' (world ?s2)),
                     log := log ?s2 @ [FindElementTakeScreenshot ''#root''] \<rparr>)
             = Some (Inr (), ?s4)"
    by (simp add: run_defs demoElements_def)
  have shot: "fst (drv_elementTakeScreenshot ?b ''#root'' (world ?s2)) = Inr (pixelPNG 9)"
    by (simp add: run_defs demoElements_def)
  from C4_fits_into_viewport [OF ins sel rects fit rem] shot fit show ?thesis by simp
qed

text \<open>
  C5. With the ignore styles inserted: when the selector is non-empty and the
  measuring script finds no element, the capture throws an error whose message names
  the selector, and the call fails; it fails with that very error when the removal of
  the ignore styles does not itself throw, and with the exception of the removal when it
  does. And whatever the capture of any kind did,
  returned or thrown, \<open>takeScreenshot\<close> settles after one more call, the removal hook on
  the inserted style element, run on the page as the capture left it.
\<close>

theorem C5_not_found_and_cleanup:
  assumes ins: "insertIgnoreStyles browser ign s = Some (Inr ignoreStyles, s1)"
  shows "(\<forall>selector s2. selector \<noteq> [] \<and> getRects browser selector s1 = Some (Inr None, s2) \<longrightarrow>
            capture browser (Value selector) s1
              = Some (Inl (newError (notFoundMessage selector)), s2)
            \<and> (\<exists>e s3. takeScreenshot browser (Value selector) ign s = Some (Inl e, s3))
            \<and> (\<forall>s3. removeIgnoreStyles browser ignoreStyles s2 = Some (Inr (), s3) \<longrightarrow>
                  takeScreenshot browser (Value selector) ign s
                    = Some (Inl (newError (notFoundMessage selector)), s3))
            \<and> (\<forall>e s3. removeIgnoreStyles browser ignoreStyles s2 = Some (Inl e, s3) \<longrightarrow>
                  takeScreenshot browser (Value selector) ign s = Some (Inl e, s3)))
       \<and> (\<forall>cap r s2 style. ignoreStyles = Some style \<and> capture browser cap s1 = Some (r, s2) \<longrightarrow>
            (\<exists>r' s3. takeScreenshot browser cap ign s = Some (r', s3)
                \<and> log s3 = log s2 @ [ExecRemoveIgnoreStyles style]
                \<and> world s3 = snd (page_removeIgnoreStyles browser style (world s2))))"
proof (intro conjI allI impI)
  fix selector s2
  assume a: "selector \<noteq> [] \<and> getRects browser selector s1 = Some (Inr None, s2)"
  show cap: "capture browser (Value selector) s1
               = Some (Inl (newError (notFoundMessage selector)), s2)"
    using a by (simp add: capture_def bindP_def throwP_def)
  show "\<exists>e s3. takeScreenshot browser (Value selector) ign s = Some (Inl e, s3)"
    using ins cap
    by (cases ignoreStyles)
       (auto simp: takeScreenshot_def bindP_def finallyP_def removeIgnoreStyles_def
                   returnP_def remote_def split: prod.splits sum.splits)
  show "takeScreenshot browser (Value selector) ign s
          = Some (Inl (newError (notFoundMessage selector)), s3)"
    if "removeIgnoreStyles browser ignoreStyles s2 = Some (Inr (), s3)" for s3
    using that ins cap by (simp add: takeScreenshot_def bindP_def finallyP_def)
  show "takeScreenshot browser (Value selector) ign s = Some (Inl e, s3)"
    if "removeIgnoreStyles browser ignoreStyles s2 = Some (Inl e, s3)" for e s3
    using that ins cap by (simp add: takeScreenshot_def bindP_def finallyP_def)
next
  fix cap r s2 style
  assume a: "ignoreStyles = Some style \<and> capture browser cap s1 = Some (r, s2)"
  then show "\<exists>r' s3. takeScreenshot browser cap ign s = Some (r', s3)
                \<and> log s3 = log s2 @ [ExecRemoveIgnoreStyles style]
                \<and> world s3 = snd (page_removeIgnoreStyles browser style (world s2))"
    using ins
    by (auto simp: takeScreenshot_def bindP_def finallyP_def removeIgnoreStyles_def
                   remote_def split: prod.splits sum.splits)
qed

theorem C5_not_found_and_cleanup_witness:
  "takeScreenshot (demoBrowser demoElements None True) (Value ''#missing'')
     (IgnoreSelector ''.date'') state0
   = Some (Inl (newError (notFoundMessage ''#missing'')),
           state0\<lparr> log := [ExecInsertIgnoreStyles [''.date''], ExecGetRects ''#missing'',
                             ExecRemoveIgnoreStyles 1] \<rparr>)
   \<and> message (newError (notFoundMessage ''#missing''))
       = ''Couldn't find element with selector: '' @ [CHR 0x27] @ ''#missing'' @ [CHR 0x27]"
proof -
  let ?b = "demoBrowser demoElements None True"
  let ?s1 = "state0\<lparr> log := [ExecInsertIgnoreStyles [''.date'']] \<rparr>"
  let ?s2 = "state0\<lparr> log := [ExecInsertIgnoreStyles [''.date''], ExecGetRects ''#missing''] \<rparr>"
  let ?s3 = "state0\<lparr> log := [ExecInsertIgnoreStyles [''.date''], ExecGetRects ''#missing'',
                               ExecRemoveIgnoreStyles 1] \<rparr>"
  have ins: "insertIgnoreStyles ?b (IgnoreSelector ''.date'') state0 = Some (Inr (Some 1), ?s1)"
    by (simp add: run_defs)
  have rects: "''#missing'' \<noteq> [] \<and> getRects ?b ''#missing'' ?s1 = Some (Inr None, ?s2)"
    by (simp add: run_defs demoElements_def)
  have rem: "removeIgnoreStyles ?b (Some 1) ?s2 = Some (Inr (), ?s3)"
    by (simp add: run_defs)
  from C5_not_found_and_cleanup [OF ins] rects rem
  have "takeScreenshot ?b (Value ''#missing'') (IgnoreSelector ''.date'') state0
          = Some (Inl (newError (notFoundMessage ''#missing'')), ?s3)"
    by blast
  then show ?thesis by (simp add: newError_def notFoundMessage_def)
qed

section \<open>Selecting a story\<close>

text \<open>
  C8. Let the test have a story whose \<open>creevey\<close> parameters leave \<open>captureElement\<close>
  undefined, and let the mouse reset and the story selection succeed. Then
  \<open>switchStory\<close> asks for the child count of the root container, as the call right after
  the selection script, and binds the capture selector by it: none (\<open>null\<close>) for no
  child or no root container, \<open>#root > *\<close> for one child, \<open>#root\<close> for more. A capture
  without selector is the screenshot of the viewport.
\<close>

theorem C8_capture_target:
  assumes test: "currentTest ctx = Some test" "story test = Some st"
    and unpinned: "captureElement (creeveyParams st) = Undefined"
    and mouse: "resetMousePosition browser s = Some (Inr (), s1)"
    and select: "selectStory browser (story_id st) (kind st) (story_name st)
                   (case waitForReady (creeveyParams st) of None \<Rightarrow> False | Some b \<Rightarrow> b) s1
                 = Some (Inr (), s2)"
    and count: "page_rootChildElementCount browser (world s2) = (Inr rootChildren, w)"
  shows "switchStory browser ctx s
           = Some (Inr (case rootChildren of
                          None \<Rightarrow> Null
                        | Some n \<Rightarrow> if n = 0 then Null
                                    else if n = 1 then Value ''#root > *''
                                    else Value ''#root'',
                        ignoreElements (creeveyParams st)),
                   s2\<lparr> world := w, log := log s2 @ [ExecRootChildCount] \<rparr>)
       \<and> log s2 = log s1 @ [ExecSelectStory (story_id st) (kind st) (story_name st)
                               (case waitForReady (creeveyParams st) of
                                  None \<Rightarrow> False | Some b \<Rightarrow> b)]
       \<and> capture browser Null = remote TakeScreenshot (drv_takeScreenshot browser)"
proof -
  have resolve: "resolveCaptureElement browser s2
           = Some (Inr (case rootChildren of
                          None \<Rightarrow> None
                        | Some n \<Rightarrow> if n = 0 then None
                                    else if n = 1 then Some ''#root > *'' else Some ''#root''),
                   s2\<lparr> world := w, log := log s2 @ [ExecRootChildCount] \<rparr>)"
    using count
    by (simp add: resolveCaptureElement_def bindP_def remote_def returnP_def Let_def
             split: option.splits)
  have switch: "switchStory browser ctx s
           = Some (Inr (case rootChildren of
                          None \<Rightarrow> Null
                        | Some n \<Rightarrow> if n = 0 then Null
                                    else if n = 1 then Value ''#root > *''
                                    else Value ''#root'',
                        ignoreElements (creeveyParams st)),
                   s2\<lparr> world := w, log := log s2 @ [ExecRootChildCount] \<rparr>)"
    using test unpinned mouse select resolve
    by (simp add: switchStory_def bindP_def returnP_def split: option.splits)
  have "log s2 = log s1 @ [ExecSelectStory (story_id st) (kind st) (story_name st)
                               (case waitForReady (creeveyParams st) of
                                  None \<Rightarrow> False | Some b \<Rightarrow> b)]"
    using select
    by (auto simp: selectStory_def bindP_def remote_def returnP_def throwP_def
             split: prod.splits sum.splits option.splits if_splits)
  moreover have "capture browser Null = remote TakeScreenshot (drv_takeScreenshot browser)"
    by (simp add: capture_def)
  ultimately show ?thesis using switch by simp
qed

lemma demo_switchStory_test:
  "currentTest demoContext = Some \<lparr> titles = [''idle'', ''Button''], story = Some demoStory \<rparr>"
  "story \<lparr> titles = [''idle'', ''Button''], story = Some demoStory \<rparr> = Some demoStory"
  "captureElement (creeveyParams demoStory) = Undefined"
  by (simp_all add: demoContext_def demoStory_def creeveyParams_def)

lemma demo_switchStory_run:
  "resetMousePosition (demoBrowser demoElements n True) state0
     = Some (Inr (), state0\<lparr> log := [ResetMousePosition] \<rparr>)"
  "selectStory (demoBrowser demoElements n True) (story_id demoStory) (kind demoStory)
     (story_name demoStory)
     (case waitForReady (creeveyParams demoStory) of None \<Rightarrow> False | Some b \<Rightarrow> b)
     (state0\<lparr> log := [ResetMousePosition] \<rparr>)
   = Some (Inr (), state0\<lparr> log := [ResetMousePosition,
                                     ExecSelectStory ''button--idle'' ''Button'' ''idle'' False] \<rparr>)"
  "page_rootChildElementCount (demoBrowser demoElements n True)
     (world (state0\<lparr> log := [ResetMousePosition,
                             ExecSelectStory ''button--idle'' ''Button'' ''idle'' False] \<rparr>))
   = (Inr n, (0, 0))"
  by (simp_all add: demoContext_def demoStory_def creeveyParams_def resetMousePosition_def
        selectStory_def selectStoryScript_def run_defs)

theorem C8_capture_target_witness:
  "switchStory (demoBrowser demoElements (Some 0) True) demoContext state0
     = Some (Inr (Null, IgnoreUndefined),
             state0\<lparr> log := [ResetMousePosition,
                               ExecSelectStory ''button--idle'' ''Button'' ''idle'' False,
                               ExecRootChildCount] \<rparr>)
   \<and> switchStory (demoBrowser demoElements (Some 1) True) demoContext state0
     = Some (Inr (Value ''#root > *'', IgnoreUndefined),
             state0\<lparr> log := [ResetMousePosition,
                               ExecSelectStory ''button--idle'' ''Button'' ''idle'' False,
                               ExecRootChildCount] \<rparr>)
   \<and> switchStory (demoBrowser demoElements (Some 3) True) demoContext state0
     = Some (Inr (Value ''#root'', IgnoreUndefined),
             state0\<lparr> log := [ResetMousePosition,
                               ExecSelectStory ''button--idle'' ''Button'' ''idle'' False,
                               ExecRootChildCount] \<rparr>)"
  using C8_capture_target [OF demo_switchStory_test demo_switchStory_run [of "Some 0"]]
        C8_capture_target [OF demo_switchStory_test demo_switchStory_run [of "Some 1"]]
        C8_capture_target [OF demo_switchStory_test demo_switchStory_run [of "Some 3"]]
  by (simp add: creeveyParams_def demoStory_def state0_def)

text \<open>
  C9: when the selection hook is undefined in the page, \<open>selectStory\<close> throws the error
  with the message about the missing addon after the one script call, which leaves the
  page as it is; \<open>switchStory\<close> fails with that same error and makes no further call.
\<close>

theorem C9_hook_absent:
  assumes hook: "page_selectStoryHook browser (world s1) = Inr None"
  shows "selectStory browser i k n ready s1
           = Some (Inl (newError hookAbsentMessage),
                   s1\<lparr> log := log s1 @ [ExecSelectStory i k n ready] \<rparr>)
       \<and> (\<forall>ctx test st s.
            currentTest ctx = Some test \<and> story test = Some st
            \<and> resetMousePosition browser s = Some (Inr (), s1) \<longrightarrow>
            switchStory browser ctx s
              = Some (Inl (newError hookAbsentMessage),
                      s1\<lparr> log := log s1 @
                             [ExecSelectStory (story_id st) (kind st) (story_name st)
                                (case waitForReady (creeveyParams st) of
                                   None \<Rightarrow> False | Some b \<Rightarrow> b)] \<rparr>))"
proof -
  have sel: "selectStory browser i' k' n' ready' s1
           = Some (Inl (newError hookAbsentMessage),
                   s1\<lparr> log := log s1 @ [ExecSelectStory i' k' n' ready'] \<rparr>)"
    for i' k' n' ready'
    using hook
    by (simp add: selectStory_def selectStoryScript_def bindP_def remote_def throwP_def
                  hookAbsentMessage_def)
  show ?thesis
    by (auto simp: sel switchStory_def bindP_def)
qed

theorem C9_hook_absent_witness:
  "page_selectStoryHook (demoBrowser demoElements None False) (0, 0) = Inr None
   \<and> switchStory (demoBrowser demoElements None False) demoContext state0
     = Some (Inl (Error ''Error'' hookAbsentMessage (''Error: '' @ hookAbsentMessage)),
             state0\<lparr> log := [ResetMousePosition,
                               ExecSelectStory ''button--idle'' ''Button'' ''idle'' False] \<rparr>)"
proof -
  let ?b = "demoBrowser demoElements None False"
  let ?s1 = "state0\<lparr> log := [ResetMousePosition] \<rparr>"
  have hook: "page_selectStoryHook ?b (world ?s1) = Inr None"
    by (simp add: demoBrowser_def state0_def)
  have pre: "currentTest demoContext
               = Some \<lparr> titles = [''idle'', ''Button''], story = Some demoStory \<rparr>
             \<and> story \<lparr> titles = [''idle'', ''Button''], story = Some demoStory \<rparr> = Some demoStory
             \<and> resetMousePosition ?b state0 = Some (Inr (), ?s1)"
    by (simp add: demoContext_def resetMousePosition_def run_defs)
  from C9_hook_absent [OF hook, of "[]" "[]" "[]" False] pre
  have "switchStory ?b demoContext state0
          = Some (Inl (newError hookAbsentMessage),
                  ?s1\<lparr> log := log ?s1 @
                         [ExecSelectStory (story_id demoStory) (kind demoStory)
                            (story_name demoStory)
                            (case waitForReady (creeveyParams demoStory) of
                               None \<Rightarrow> False | Some b \<Rightarrow> b)] \<rparr>)"
    by blast
  then show ?thesis
    by (simp add: newError_def demoStory_def creeveyParams_def demoBrowser_def state0_def)
qed

section \<open>The order of the candidates\<close>


















section \<open>Failures of the session opening\<close>
















end
